theory Spec2Isabelle
  imports Main
begin

section \<open>JavaScript values used by the stream handler\<close>

subsection \<open>Strings\<close>

text \<open>
  \<^verbatim>\<open>String.prototype.startsWith\<close> and \<^verbatim>\<open>String.prototype.includes\<close>, on
  strings as character lists.
\<close>

definition startsWith :: "string \<Rightarrow> string \<Rightarrow> bool" where
  "startsWith s p = (take (length p) s = p)"

fun includes_str :: "string \<Rightarrow> string \<Rightarrow> bool" where
  "includes_str [] t = (t = [])"
| "includes_str (c # cs) t = (startsWith (c # cs) t \<or> includes_str cs t)"

subsection \<open>Numbers\<close>

text \<open>
  A JavaScript \<^verbatim>\<open>number\<close>, as far as the handler produces one: an integer, or
  \<^verbatim>\<open>NaN\<close> (what \<^verbatim>\<open>parseInt('', 10)\<close> returns). Integers are kept exact; the
  handler's arithmetic is exact in JavaScript as long as the values stay within
  \<open>\<plusminus>(2^53 - 1)\<close>, which object sizes and offsets into objects do.
  Every arithmetic operation with a \<^verbatim>\<open>NaN\<close> operand is \<^verbatim>\<open>NaN\<close>, every
  comparison with a \<^verbatim>\<open>NaN\<close> operand is false.
\<close>

datatype number = Number int | NaN

fun js_add :: "number \<Rightarrow> number \<Rightarrow> number" where
  "js_add (Number a) (Number b) = Number (a + b)"
| "js_add _ _ = NaN"

fun js_sub :: "number \<Rightarrow> number \<Rightarrow> number" where
  "js_sub (Number a) (Number b) = Number (a - b)"
| "js_sub _ _ = NaN"

fun js_max :: "number \<Rightarrow> number \<Rightarrow> number" where
  "js_max (Number a) (Number b) = Number (max a b)"
| "js_max _ _ = NaN"

fun js_min :: "number \<Rightarrow> number \<Rightarrow> number" where
  "js_min (Number a) (Number b) = Number (min a b)"
| "js_min _ _ = NaN"

fun js_lt :: "number \<Rightarrow> number \<Rightarrow> bool" where
  "js_lt (Number a) (Number b) = (a < b)"
| "js_lt _ _ = False"

fun js_le :: "number \<Rightarrow> number \<Rightarrow> bool" where
  "js_le (Number a) (Number b) = (a \<le> b)"
| "js_le _ _ = False"

fun js_ge :: "number \<Rightarrow> number \<Rightarrow> bool" where
  "js_ge (Number a) (Number b) = (a \<ge> b)"
| "js_ge _ _ = False"

text \<open>Strict equality \<^verbatim>\<open>===\<close> on numbers: \<^verbatim>\<open>NaN\<close> equals nothing.\<close>

fun js_eq :: "number \<Rightarrow> number \<Rightarrow> bool" where
  "js_eq (Number a) (Number b) = (a = b)"
| "js_eq _ _ = False"

definition is_digit :: "char \<Rightarrow> bool" where
  "is_digit c = (c \<in> set ''0123456789'')"

definition digit_value :: "char \<Rightarrow> int" where
  "digit_value c = int (of_char c) - 48"

definition decimal :: "string \<Rightarrow> int" where
  "decimal ds = foldl (\<lambda>acc c. 10 * acc + digit_value c) 0 ds"

text \<open>
  \<^verbatim>\<open>parseInt(s, 10)\<close> on the strings the handler passes to it, which are the
  groups \<^verbatim>\<open>(\d*)\<close> of the range pattern: the leading decimal digits are read, and
  a string with none gives \<^verbatim>\<open>NaN\<close>. (The white space and sign that
  \<^verbatim>\<open>parseInt\<close> also skips cannot occur in such a group.)
\<close>

definition parseInt :: "string \<Rightarrow> number" where
  "parseInt s =
     (let ds = takeWhile is_digit s
      in if ds = [] then NaN else Number (decimal ds))"

function digits_of :: "nat \<Rightarrow> string" where
  "digits_of n =
     (if n < 10 then [''0123456789'' ! n]
      else digits_of (n div 10) @ [''0123456789'' ! (n mod 10)])"
  by pat_completeness auto
termination
  by (relation "measure id") auto

declare digits_of.simps [simp del]

text \<open>
  \<^verbatim>\<open>Number.prototype.toString\<close>, which template literals and
  \<^verbatim>\<open>.toString()\<close> apply: decimal digits for an integer, \<^verbatim>\<open>NaN\<close> otherwise.
\<close>

fun toString :: "number \<Rightarrow> string" where
  "toString (Number n) = (if n < 0 then ''-'' @ digits_of (nat (- n)) else digits_of (nat n))"
| "toString NaN = ''NaN''"

subsection \<open>The range pattern\<close>

text \<open>
  \<^verbatim>\<open>/bytes=(\d*)-(\d*)/\<close> tried at the start of a string. Both groups are
  greedy; after the longest run of digits the next character is not a digit, so giving
  digits back never lets the \<^verbatim>\<open>-\<close> match, and the longest run is the only
  candidate for the first group.
\<close>

definition regex_at :: "string \<Rightarrow> (string \<times> string) option" where
  "regex_at s =
     (if startsWith s ''bytes='' then
        (case dropWhile is_digit (drop 6 s) of
           [] \<Rightarrow> None
         | c # rest \<Rightarrow>
             if c = CHR ''-'' then Some (takeWhile is_digit (drop 6 s), takeWhile is_digit rest)
             else None)
      else None)"

text \<open>
  \<^verbatim>\<open>rangeHeader.match(/bytes=(\d*)-(\d*)/)\<close>: the pattern is not anchored, so
  the leftmost position where it matches is taken. The result is the pair of groups
  \<^verbatim>\<open>(match[1], match[2])\<close>, \<open>None\<close> for \<^verbatim>\<open>null\<close>.
\<close>

fun match_range :: "string \<Rightarrow> (string \<times> string) option" where
  "match_range [] = regex_at []"
| "match_range (c # cs) =
     (case regex_at (c # cs) of Some g \<Rightarrow> Some g | None \<Rightarrow> match_range cs)"

section \<open>Responses, collaborators and the world\<close>

type_synonym bytes = "nat list"

text \<open>
  A response body: none (\<^verbatim>\<open>null\<close>), a text, the object passed to
  \<^verbatim>\<open>JSON.stringify\<close> (its fields in order; every field of this program is a
  string), or bytes (an \<^verbatim>\<open>ArrayBuffer\<close> or a stream of them).
\<close>

datatype body = NoBody | TextBody string | JsonBody "(string \<times> string) list" | BytesBody bytes

text \<open>
  A \<^verbatim>\<open>Response\<close>: its status, the headers the program gives it (a dictionary from
  header name to value; headers the runtime adds by itself are not modelled) and its body.
\<close>

record response =
  status :: nat
  headers :: "string \<rightharpoonup> string"
  body :: body

text \<open>What a failing call throws: an \<^verbatim>\<open>Error\<close> with its message, or another value.\<close>

datatype thrown = Error string | NonError

text \<open>How the promise of an \<^verbatim>\<open>async\<close> function settles.\<close>

datatype outcome = Resolved response | Rejected thrown

text \<open>
  \<^verbatim>\<open>R2Object\<close> as \<^verbatim>\<open>head\<close> returns it (\<^verbatim>\<open>httpMetadata?.contentType\<close> and
  \<^verbatim>\<open>size\<close>), and \<^verbatim>\<open>R2ObjectBody\<close> as \<^verbatim>\<open>get\<close> returns it, whose
  \<^verbatim>\<open>body\<close> may be missing.
\<close>

record objectInfo =
  info_contentType :: "string option"
  info_size :: int

datatype r2ObjectBody = R2ObjectBody "bytes option"

text \<open>The calls the handler makes on its collaborators.\<close>

datatype op =
    CacheMatch string
  | CachePut string
  | BucketHead string
  | BucketGet string
  | BucketGetRange string number number
  | KVGet string
  | KVPut string nat

text \<open>
  The world a request runs in: whether \<^verbatim>\<open>env.bucket\<close> and \<^verbatim>\<open>env.KV\<close> are
  bound, what the object store answers, the contents of the key-value tier and of the edge
  cache \<^verbatim>\<open>caches.default\<close> (keyed by the URL of the synthetic request), which calls
  fail (and what they throw), and the trace of the calls made so far.
\<close>

record world =
  bucket_bound :: bool
  r2_head :: "string \<Rightarrow> objectInfo option"
  r2_get :: "string \<Rightarrow> r2ObjectBody option"
  r2_get_range :: "string \<Rightarrow> number \<Rightarrow> number \<Rightarrow> r2ObjectBody option"
  kv_bound :: bool
  kv_data :: "string \<rightharpoonup> bytes"
  cache_data :: "string \<rightharpoonup> response"
  faults :: "op \<Rightarrow> thrown option"
  trace :: "op list"

text \<open>The request, as far as the handler reads it: \<^verbatim>\<open>request.headers.get('range')\<close>.\<close>

record request =
  range_header :: "string option"

subsection \<open>Awaited calls\<close>

text \<open>
  An awaited call is recorded in the trace, and either throws (\<open>Inl\<close>) or returns.
\<close>

definition caches_match :: "string \<Rightarrow> world \<Rightarrow> (thrown + response option) \<times> world" where
  "caches_match url w =
     (case faults w (CacheMatch url) of
        Some e \<Rightarrow> (Inl e, w\<lparr>trace := trace w @ [CacheMatch url]\<rparr>)
      | None \<Rightarrow> (Inr (cache_data w url), w\<lparr>trace := trace w @ [CacheMatch url]\<rparr>))"

definition bucket_head :: "string \<Rightarrow> world \<Rightarrow> (thrown + objectInfo option) \<times> world" where
  "bucket_head k w =
     (case faults w (BucketHead k) of
        Some e \<Rightarrow> (Inl e, w\<lparr>trace := trace w @ [BucketHead k]\<rparr>)
      | None \<Rightarrow> (Inr (r2_head w k), w\<lparr>trace := trace w @ [BucketHead k]\<rparr>))"

definition bucket_get :: "string \<Rightarrow> world \<Rightarrow> (thrown + r2ObjectBody option) \<times> world" where
  "bucket_get k w =
     (case faults w (BucketGet k) of
        Some e \<Rightarrow> (Inl e, w\<lparr>trace := trace w @ [BucketGet k]\<rparr>)
      | None \<Rightarrow> (Inr (r2_get w k), w\<lparr>trace := trace w @ [BucketGet k]\<rparr>))"

definition bucket_get_range ::
  "string \<Rightarrow> number \<Rightarrow> number \<Rightarrow> world \<Rightarrow> (thrown + r2ObjectBody option) \<times> world" where
  "bucket_get_range k offset len w =
     (case faults w (BucketGetRange k offset len) of
        Some e \<Rightarrow> (Inl e, w\<lparr>trace := trace w @ [BucketGetRange k offset len]\<rparr>)
      | None \<Rightarrow> (Inr (r2_get_range w k offset len), w\<lparr>trace := trace w @ [BucketGetRange k offset len]\<rparr>))"

definition KV_get :: "string \<Rightarrow> world \<Rightarrow> (thrown + bytes option) \<times> world" where
  "KV_get k w =
     (case faults w (KVGet k) of
        Some e \<Rightarrow> (Inl e, w\<lparr>trace := trace w @ [KVGet k]\<rparr>)
      | None \<Rightarrow> (Inr (kv_data w k), w\<lparr>trace := trace w @ [KVGet k]\<rparr>))"

subsection \<open>Calls in the background\<close>

text \<open>
  \<^verbatim>\<open>caches.default.put(...)\<close> and \<^verbatim>\<open>env.KV.put(...)\<close> are not awaited and
  their rejection is caught and logged: the call is recorded, and it stores the entry
  unless it fails.
\<close>

definition caches_put :: "string \<Rightarrow> response \<Rightarrow> world \<Rightarrow> world" where
  "caches_put url r w =
     (case faults w (CachePut url) of
        Some e \<Rightarrow> w\<lparr>trace := trace w @ [CachePut url]\<rparr>
      | None \<Rightarrow> w\<lparr>cache_data := (cache_data w)(url \<mapsto> r), trace := trace w @ [CachePut url]\<rparr>)"

definition KV_put :: "string \<Rightarrow> bytes \<Rightarrow> nat \<Rightarrow> world \<Rightarrow> world" where
  "KV_put k v ttl w =
     (case faults w (KVPut k ttl) of
        Some e \<Rightarrow> w\<lparr>trace := trace w @ [KVPut k ttl]\<rparr>
      | None \<Rightarrow> w\<lparr>kv_data := (kv_data w)(k \<mapsto> v), trace := trace w @ [KVPut k ttl]\<rparr>)"

section \<open>The stream handler\<close>

subsection \<open>Configuration and headers\<close>

record cacheConfig =
  browserCache :: string
  kvTTL :: nat
  shouldCacheInKV :: bool
  maxKVSize :: int

definition CACHE_CONFIGS_image :: cacheConfig where
  "CACHE_CONFIGS_image =
     \<lparr>browserCache = ''public, max-age=31536000, immutable'', kvTTL = 31536000,
      shouldCacheInKV = True, maxKVSize = 5 * 1024 * 1024\<rparr>"

definition CACHE_CONFIGS_video :: cacheConfig where
  "CACHE_CONFIGS_video =
     \<lparr>browserCache = ''public, max-age=31536000, immutable'', kvTTL = 604800,
      shouldCacheInKV = False, maxKVSize = 0\<rparr>"

definition CACHE_CONFIGS_audio :: cacheConfig where
  "CACHE_CONFIGS_audio =
     \<lparr>browserCache = ''public, max-age=31536000, immutable'', kvTTL = 2592000,
      shouldCacheInKV = True, maxKVSize = 10 * 1024 * 1024\<rparr>"

definition VIDEO_CHUNK_SIZE :: int where
  "VIDEO_CHUNK_SIZE = 2 * 1024 * 1024"

definition AUDIO_CHUNK_SIZE :: int where
  "AUDIO_CHUNK_SIZE = 512 * 1024"

definition DEFAULT_CHUNK_SIZE :: int where
  "DEFAULT_CHUNK_SIZE = 1 * 1024 * 1024"

definition KV_NAMESPACE :: string where
  "KV_NAMESPACE = ''celebrity:media:''"

definition corsHeaders :: "string \<rightharpoonup> string" where
  "corsHeaders =
     [''Access-Control-Allow-Origin'' \<mapsto> ''*'',
      ''Access-Control-Allow-Methods'' \<mapsto> ''GET, POST, DELETE, OPTIONS'',
      ''Access-Control-Allow-Headers'' \<mapsto> ''Content-Type, Authorization'']"

text \<open>An object literal with a spread: the later entries win, \<open>m ++ n\<close> prefers \<open>n\<close>.\<close>

definition jsonResponse :: "(string \<times> string) list \<Rightarrow> nat \<Rightarrow> response" where
  "jsonResponse obj st =
     \<lparr>status = st,
      headers = corsHeaders ++ [''Content-Type'' \<mapsto> ''application/json''],
      body = JsonBody obj\<rparr>"

text \<open>The cache key is a \<^verbatim>\<open>GET\<close> request; its URL stands for it.\<close>

definition getCacheKey :: "string \<Rightarrow> string" where
  "getCacheKey fileKey = ''https://cache.local/celebrity/'' @ fileKey"

definition getKVKey :: "string \<Rightarrow> string" where
  "getKVKey fileKey = KV_NAMESPACE @ fileKey"

definition getCacheConfig :: "string \<Rightarrow> cacheConfig" where
  "getCacheConfig contentType =
     (if startsWith contentType ''image/'' then CACHE_CONFIGS_image
      else if startsWith contentType ''video/'' then CACHE_CONFIGS_video
      else if startsWith contentType ''audio/'' then CACHE_CONFIGS_audio
      else CACHE_CONFIGS_image)"

definition buildResponseHeaders :: "string \<Rightarrow> number \<Rightarrow> string \<Rightarrow> string \<Rightarrow> (string \<rightharpoonup> string)" where
  "buildResponseHeaders contentType contentLength cacheControl cacheStatus =
     [''Content-Type'' \<mapsto> contentType,
      ''Content-Length'' \<mapsto> toString contentLength,
      ''Cache-Control'' \<mapsto> cacheControl,
      ''X-Cache'' \<mapsto> cacheStatus,
      ''X-Content-Type-Options'' \<mapsto> ''nosniff'',
      ''Accept-Ranges'' \<mapsto> ''bytes'',
      ''Content-Disposition'' \<mapsto> ''inline''] ++ corsHeaders"

definition buildRangeHeaders ::
  "string \<Rightarrow> number \<Rightarrow> number \<Rightarrow> number \<Rightarrow> string \<Rightarrow> (string \<rightharpoonup> string)" where
  "buildRangeHeaders contentType start end' totalSize cacheControl =
     [''Content-Type'' \<mapsto> contentType,
      ''Content-Range'' \<mapsto> ''bytes '' @ toString start @ ''-'' @ toString end' @ ''/'' @ toString totalSize,
      ''Content-Length'' \<mapsto> toString (js_add (js_sub end' start) (Number 1)),
      ''Accept-Ranges'' \<mapsto> ''bytes'',
      ''Cache-Control'' \<mapsto> cacheControl,
      ''X-Content-Type-Options'' \<mapsto> ''nosniff''] ++ corsHeaders"

subsection \<open>Range requests\<close>

text \<open>
  The byte range \<^verbatim>\<open>handleRangeRequest\<close> computes from the groups of a matched
  header (its lines from "chunk size" to the end of the \<^verbatim>\<open>if\<close> that assigns
  \<^verbatim>\<open>start\<close> and \<^verbatim>\<open>end\<close>). A group is truthy when it is not empty.
\<close>

definition handleRangeRequest_bounds :: "string \<times> string \<Rightarrow> string \<Rightarrow> int \<Rightarrow> number \<times> number" where
  "handleRangeRequest_bounds m contentType totalSize =
     (let chunkSize =
            (if startsWith contentType ''video/'' then VIDEO_CHUNK_SIZE
             else if startsWith contentType ''audio/'' then AUDIO_CHUNK_SIZE
             else DEFAULT_CHUNK_SIZE)
      in if fst m = [] \<and> snd m \<noteq> [] then
           (let suffix = parseInt (snd m)
            in (js_max (js_sub (Number totalSize) suffix) (Number 0),
                js_sub (Number totalSize) (Number 1)))
         else
           (let start = parseInt (fst m)
            in (start,
                if snd m \<noteq> [] then parseInt (snd m)
                else js_min (js_sub (js_add start (Number chunkSize)) (Number 1))
                            (js_sub (Number totalSize) (Number 1)))))"

definition rangeCacheUrl :: "string \<Rightarrow> number \<Rightarrow> string" where
  "rangeCacheUrl fileKey end' = ''https://cache.local/range/'' @ fileKey @ ''?chunk=0-'' @ toString end'"

definition handleRangeRequest ::
  "request \<Rightarrow> world \<Rightarrow> string \<Rightarrow> string \<Rightarrow> string \<Rightarrow> int \<Rightarrow> string \<Rightarrow> outcome \<times> world" where
  "handleRangeRequest request w fileKey rangeHeader contentType totalSize cacheControl =
     (case match_range rangeHeader of
        None \<Rightarrow>
          (Resolved \<lparr>status = 400, headers = Map.empty, body = TextBody ''Invalid range''\<rparr>, w)
      | Some m \<Rightarrow>
          (case handleRangeRequest_bounds m contentType totalSize of
             (start, end') \<Rightarrow>
               if js_ge start (Number totalSize) \<or> js_lt start (Number 0) \<or> js_lt end' start then
                 (Resolved
                    \<lparr>status = 416,
                     headers = [''Content-Range'' \<mapsto> ''bytes */'' @ toString (Number totalSize)] ++ corsHeaders,
                     body = NoBody\<rparr>, w)
               else
                 (let isFirstChunk = js_eq start (Number 0);
                      rangeCacheKey = (if isFirstChunk then Some (rangeCacheUrl fileKey end') else None)
                  in case (case rangeCacheKey of
                             Some k \<Rightarrow> caches_match k w
                           | None \<Rightarrow> (Inr None, w)) of
                       (Inl e, w1) \<Rightarrow> (Rejected e, w1)
                     | (Inr (Some cachedChunk), w1) \<Rightarrow> (Resolved cachedChunk, w1)
                     | (Inr None, w1) \<Rightarrow>
                         (case bucket_get_range fileKey start (js_add (js_sub end' start) (Number 1)) w1 of
                            (Inl e, w2) \<Rightarrow> (Rejected e, w2)
                          | (Inr None, w2) \<Rightarrow>
                              (Resolved \<lparr>status = 500, headers = Map.empty,
                                         body = TextBody ''Failed to get range''\<rparr>, w2)
                          | (Inr (Some (R2ObjectBody None)), w2) \<Rightarrow>
                              (Resolved \<lparr>status = 500, headers = Map.empty,
                                         body = TextBody ''Failed to get range''\<rparr>, w2)
                          | (Inr (Some (R2ObjectBody (Some b))), w2) \<Rightarrow>
                              (let response =
                                     \<lparr>status = 206,
                                      headers = buildRangeHeaders contentType start end' (Number totalSize) cacheControl,
                                      body = BytesBody b\<rparr>
                               in (Resolved response,
                                   case rangeCacheKey of
                                     Some k \<Rightarrow>
                                       if js_le (js_add (js_sub end' start) (Number 1)) (Number (512 * 1024))
                                       then caches_put k response w2 else w2
                                   | None \<Rightarrow> w2))))))"

subsection \<open>Whole objects\<close>

text \<open>
  Step 4 of \<^verbatim>\<open>handleFileStream\<close>, the key-value tier: \<open>Some\<close> is the response
  returned on a hit (also put into the edge cache, in the background); \<open>None\<close> means
  the handler goes on, after a miss, after a read that threw (the \<^verbatim>\<open>catch\<close> only
  logs the error), or when the tier is not consulted.
\<close>

definition handleFileStream_kv ::
  "world \<Rightarrow> string \<Rightarrow> string \<Rightarrow> int \<Rightarrow> cacheConfig \<Rightarrow> string \<Rightarrow> response option \<times> world" where
  "handleFileStream_kv w fileKey contentType fileSize config cacheKey =
     (if shouldCacheInKV config \<and> fileSize \<le> maxKVSize config \<and> kv_bound w then
        (case KV_get (getKVKey fileKey) w of
           (Inr (Some kvData), w1) \<Rightarrow>
             (let response =
                    \<lparr>status = 200,
                     headers = buildResponseHeaders contentType (Number (int (length kvData)))
                                 (browserCache config) ''HIT-KV'',
                     body = BytesBody kvData\<rparr>
              in (Some response, caches_put cacheKey response w1))
         | (Inr None, w1) \<Rightarrow> (None, w1)
         | (Inl error, w1) \<Rightarrow> (None, w1))
      else (None, w))"

text \<open>
  Steps 5 and 6 of \<^verbatim>\<open>handleFileStream\<close>, the read from the object store;
  \<open>Inl\<close> is an exception thrown inside the handler's \<^verbatim>\<open>try\<close>.
\<close>

definition handleFileStream_r2 ::
  "world \<Rightarrow> string \<Rightarrow> string \<Rightarrow> int \<Rightarrow> cacheConfig \<Rightarrow> string \<Rightarrow> (thrown + response) \<times> world" where
  "handleFileStream_r2 w fileKey contentType fileSize config cacheKey =
     (case bucket_get fileKey w of
        (Inl e, w1) \<Rightarrow> (Inl e, w1)
      | (Inr None, w1) \<Rightarrow> (Inr (jsonResponse [(''error'', ''File not found'')] 404), w1)
      | (Inr (Some (R2ObjectBody None)), w1) \<Rightarrow>
          (Inr (jsonResponse [(''error'', ''File not found'')] 404), w1)
      | (Inr (Some (R2ObjectBody (Some b))), w1) \<Rightarrow>
          (let hdrs = buildResponseHeaders contentType (Number fileSize) (browserCache config) ''MISS'';
               response = \<lparr>status = 200, headers = hdrs, body = BytesBody b\<rparr>
           in if fileSize \<le> maxKVSize config then
                (let w2 = caches_put cacheKey response w1;
                     w3 = (if shouldCacheInKV config \<and> kv_bound w2
                           then KV_put (getKVKey fileKey) b (kvTTL config) w2 else w2)
                 in (Inr response, w3))
              else (Inr response, w1)))"

text \<open>
  Truthiness of what \<^verbatim>\<open>headers.get\<close> returns: \<^verbatim>\<open>null\<close> and the empty
  string are falsy.
\<close>

definition truthy :: "string option \<Rightarrow> bool" where
  "truthy v = (case v of Some s \<Rightarrow> s \<noteq> [] | None \<Rightarrow> False)"

text \<open>
  \<^verbatim>\<open>handleFileStream\<close> from the content type to its last line, once
  \<^verbatim>\<open>head\<close> has returned the object's metadata. \<open>Inl\<close> is an exception thrown
  inside the \<^verbatim>\<open>try\<close>; \<open>Inr\<close> is what is returned: a response, or the promise
  of \<^verbatim>\<open>handleRangeRequest\<close>, which is returned without \<^verbatim>\<open>await\<close>, so that
  its rejection is not caught by the \<^verbatim>\<open>catch\<close> of \<^verbatim>\<open>handleFileStream\<close>.
\<close>

definition handleFileStream_object ::
  "request \<Rightarrow> world \<Rightarrow> string \<Rightarrow> string \<Rightarrow> objectInfo \<Rightarrow> (thrown + outcome) \<times> world" where
  "handleFileStream_object request w fileKey cacheKey objectInfo =
     (let contentType =
            (case info_contentType objectInfo of
               Some t \<Rightarrow> if t = [] then ''application/octet-stream'' else t
             | None \<Rightarrow> ''application/octet-stream'');
          isImage = startsWith contentType ''image/'';
          isVideo = startsWith contentType ''video/'';
          isAudio = startsWith contentType ''audio/''
      in if \<not> isImage \<and> \<not> isVideo \<and> \<not> isAudio then
           (Inr (Resolved (jsonResponse
                   [(''error'', ''This endpoint is for media files only. Use /download/ for other files.''),
                    (''downloadUrl'', ''/download/'' @ fileKey),
                    (''contentType'', contentType)] 400)), w)
         else
           (let fileSize = info_size objectInfo;
                config = getCacheConfig contentType;
                rangeHeader = range_header request
            in if truthy rangeHeader \<and> (isVideo \<or> isAudio) then
                 (case handleRangeRequest request w fileKey
                         (case rangeHeader of Some h \<Rightarrow> h | None \<Rightarrow> [])
                         contentType fileSize (browserCache config) of
                    (oc, w1) \<Rightarrow> (Inr oc, w1))
               else
                 (case handleFileStream_kv w fileKey contentType fileSize config cacheKey of
                    (Some response, w1) \<Rightarrow> (Inr (Resolved response), w1)
                  | (None, w1) \<Rightarrow>
                      (case handleFileStream_r2 w1 fileKey contentType fileSize config cacheKey of
                         (Inl e, w2) \<Rightarrow> (Inl e, w2)
                       | (Inr response, w2) \<Rightarrow> (Inr (Resolved response), w2)))))"

text \<open>
  The body of the \<^verbatim>\<open>try\<close> of \<^verbatim>\<open>handleFileStream\<close>, from the check of
  the key to the metadata probe.
\<close>

definition handleFileStream_try :: "request \<Rightarrow> world \<Rightarrow> string \<Rightarrow> (thrown + outcome) \<times> world" where
  "handleFileStream_try request w fileKey =
     (if fileKey = [] \<or> includes_str fileKey ''..'' then
        (Inr (Resolved (jsonResponse [(''error'', ''Invalid file key'')] 400)), w)
      else if \<not> bucket_bound w then
        (Inr (Resolved (jsonResponse
                [(''error'', ''R2 bucket not configured''),
                 (''debug'', ''env.bucket is undefined in handleFileStream'')] 500)), w)
      else
        (let cacheKey = getCacheKey fileKey
         in case caches_match cacheKey w of
              (Inl e, w1) \<Rightarrow> (Inl e, w1)
            | (Inr cachedResponse, w1) \<Rightarrow>
                (case (if truthy (range_header request) then None else cachedResponse) of
                   Some c \<Rightarrow>
                     (Inr (Resolved \<lparr>status = status c,
                                     headers = (headers c)(''X-Cache'' \<mapsto> ''HIT-WORKERS''),
                                     body = body c\<rparr>), w1)
                 | None \<Rightarrow>
                     (case bucket_head fileKey w1 of
                        (Inl e, w2) \<Rightarrow> (Inl e, w2)
                      | (Inr None, w2) \<Rightarrow>
                          (Inr (Resolved (jsonResponse [(''error'', ''File not found'')] 404)), w2)
                      | (Inr (Some objectInfo), w2) \<Rightarrow>
                          handleFileStream_object request w2 fileKey cacheKey objectInfo))))"

text \<open>
  \<^verbatim>\<open>handleFileStream\<close>: the \<^verbatim>\<open>catch\<close> turns an exception of the
  \<^verbatim>\<open>try\<close> into a 500 response.
\<close>

definition handleFileStream :: "request \<Rightarrow> world \<Rightarrow> string \<Rightarrow> outcome \<times> world" where
  "handleFileStream request w fileKey =
     (case handleFileStream_try request w fileKey of
        (Inr oc, w') \<Rightarrow> (oc, w')
      | (Inl error, w') \<Rightarrow>
          (Resolved (jsonResponse
             [(''error'', ''Internal server error''),
              (''details'', case error of Error message \<Rightarrow> message | NonError \<Rightarrow> ''Unknown error'')]
             500), w'))"

section \<open>Observations and sample data\<close>

text \<open>The status and a header of the response a promise resolves to.\<close>

definition response_status :: "outcome \<Rightarrow> nat option" where
  "response_status oc = (case oc of Resolved r \<Rightarrow> Some (status r) | Rejected e \<Rightarrow> None)"

definition response_header :: "outcome \<Rightarrow> string \<Rightarrow> string option" where
  "response_header oc name = (case oc of Resolved r \<Rightarrow> headers r name | Rejected e \<Rightarrow> None)"

text \<open>
  The chunk sizes in the words of the specification: 2 MiB for \<^verbatim>\<open>video/\<close>,
  512 KiB for \<^verbatim>\<open>audio/\<close>, 1 MiB otherwise. The handler's own constants are
  \<^const>\<open>VIDEO_CHUNK_SIZE\<close>, \<^const>\<open>AUDIO_CHUNK_SIZE\<close> and \<^const>\<open>DEFAULT_CHUNK_SIZE\<close>.
\<close>

definition spec_chunkSize :: "string \<Rightarrow> int" where
  "spec_chunkSize contentType =
     (if startsWith contentType ''video/'' then 2097152
      else if startsWith contentType ''audio/'' then 524288
      else 1048576)"

text \<open>
  A sample world: a bucket with a video of 50 MiB, an audio clip of 100 bytes and an
  image of 1000 bytes, a bound and empty key-value tier, an empty edge cache, no failing
  call. A range read returns the bytes of the object that lie in the range.
\<close>

definition demo_objects :: "string \<Rightarrow> (string \<times> bytes) option" where
  "demo_objects k =
     (if k = ''celebrity/demo/clip.mp4'' then Some (''video/mp4'', replicate 52428800 0)
      else if k = ''celebrity/demo/ring.mp3'' then Some (''audio/mpeg'', replicate 100 0)
      else if k = ''celebrity/demo/photo.webp'' then Some (''image/webp'', replicate 1000 0)
      else None)"

definition demo_world :: world where
  "demo_world =
     \<lparr>bucket_bound = True,
      r2_head = (\<lambda>k. case demo_objects k of
                        Some (t, bs) \<Rightarrow> Some \<lparr>info_contentType = Some t, info_size = int (length bs)\<rparr>
                      | None \<Rightarrow> None),
      r2_get = (\<lambda>k. case demo_objects k of
                       Some (t, bs) \<Rightarrow> Some (R2ObjectBody (Some bs))
                     | None \<Rightarrow> None),
      r2_get_range = (\<lambda>k offset len. case (demo_objects k, offset, len) of
                       (Some (t, bs), Number a, Number n) \<Rightarrow>
                          Some (R2ObjectBody (Some (take (nat n) (drop (nat a) bs))))
                     | _ \<Rightarrow> None),
      kv_bound = True,
      kv_data = Map.empty,
      cache_data = Map.empty,
      faults = (\<lambda>a. None),
      trace = []\<rparr>"

text \<open>
  The same world with a key-value tier whose reads fail, and with the image already in the
  edge cache.
\<close>

definition kv_down_world :: world where
  "kv_down_world =
     demo_world\<lparr>faults := (\<lambda>a. case a of KVGet k \<Rightarrow> Some (Error ''KV GET failed: 500'') | _ \<Rightarrow> None)\<rparr>"

definition warm_world :: world where
  "warm_world =
     demo_world\<lparr>cache_data :=
       [''https://cache.local/celebrity/celebrity/demo/photo.webp'' \<mapsto>
          \<lparr>status = 200,
           headers = buildResponseHeaders ''image/webp'' (Number 1000)
                       ''public, max-age=31536000, immutable'' ''MISS'',
           body = BytesBody (replicate 1000 0)\<rparr>]\<rparr>"

text \<open>The last world with the image in the key-value tier as well.\<close>

definition kv_warm_world :: world where
  "kv_warm_world =
     warm_world\<lparr>kv_data := [''celebrity:media:celebrity/demo/photo.webp'' \<mapsto> replicate 1000 0]\<rparr>"

text \<open>
  The world in which the read of the key-value entry of \<open>fileKey\<close> does not fail and
  finds nothing, all else as in \<open>w\<close>.
\<close>

definition kv_read_misses :: "world \<Rightarrow> string \<Rightarrow> world" where
  "kv_read_misses w fileKey =
     w\<lparr>faults := (faults w)(KVGet (getKVKey fileKey) := None),
       kv_data := (kv_data w)(getKVKey fileKey := None)\<rparr>"

text \<open>
  The calls that only the range responder makes: a range read of the object store, and
  a lookup or a store in the first-chunk cache.
\<close>

definition range_responder_call :: "op \<Rightarrow> bool" where
  "range_responder_call a =
     (case a of
        BucketGetRange k offset len \<Rightarrow> True
      | CacheMatch url \<Rightarrow> startsWith url ''https://cache.local/range/''
      | CachePut url \<Rightarrow> startsWith url ''https://cache.local/range/''
      | _ \<Rightarrow> False)"

section \<open>Facts about the helpers\<close>

lemma startsWith_append: "startsWith (p @ s) p"
  by (simp add: startsWith_def)

lemma includes_str_iff: "includes_str s t \<longleftrightarrow> (\<exists>a b. s = a @ t @ b)"
proof (induction s)
  case Nil
  then show ?case by auto
next
  case (Cons c cs)
  have "startsWith (c # cs) t \<longleftrightarrow> (\<exists>b. c # cs = t @ b)"
    unfolding startsWith_def
    by (metis append_eq_conv_conj append_take_drop_id)
  moreover have "(\<exists>a b. c # cs = a @ t @ b) \<longleftrightarrow> (\<exists>b. c # cs = t @ b) \<or> (\<exists>a b. cs = a @ t @ b)"
  proof
    assume "\<exists>a b. c # cs = a @ t @ b"
    then obtain a b where ab: "c # cs = a @ t @ b" by blast
    show "(\<exists>b. c # cs = t @ b) \<or> (\<exists>a b. cs = a @ t @ b)"
    proof (cases a)
      case Nil
      with ab show ?thesis by auto
    next
      case (Cons x a')
      with ab have "cs = a' @ t @ b" by simp
      then show ?thesis by blast
    qed
  next
    assume "(\<exists>b. c # cs = t @ b) \<or> (\<exists>a b. cs = a @ t @ b)"
    then show "\<exists>a b. c # cs = a @ t @ b"
    proof
      assume "\<exists>b. c # cs = t @ b"
      then obtain b where "c # cs = [] @ t @ b" by auto
      then show ?thesis by blast
    next
      assume "\<exists>a b. cs = a @ t @ b"
      then obtain a b where "c # cs = (c # a) @ t @ b" by auto
      then show ?thesis by blast
    qed
  qed
  ultimately show ?case using Cons.IH by simp
qed

lemma not_digit_dash: "\<not> is_digit CHR ''-''"
  by (simp add: is_digit_def)

lemma takeWhile_digits: "list_all is_digit ds \<Longrightarrow> takeWhile is_digit (ds @ CHR ''-'' # rest) = ds"
  by (induction ds) (auto simp: not_digit_dash)

lemma dropWhile_digits: "list_all is_digit ds \<Longrightarrow> dropWhile is_digit (ds @ CHR ''-'' # rest) = CHR ''-'' # rest"
  by (induction ds) (auto simp: not_digit_dash)

lemma takeWhile_all: "list_all is_digit ds \<Longrightarrow> takeWhile is_digit ds = ds"
  by (induction ds) auto

lemma regex_at_bytes:
  assumes "list_all is_digit da" "list_all is_digit db"
  shows "regex_at (''bytes='' @ da @ ''-'' @ db) = Some (da, db)"
  using assms by (simp add: regex_at_def startsWith_def takeWhile_digits dropWhile_digits takeWhile_all)

lemma match_range_bytes:
  assumes "list_all is_digit da" "list_all is_digit db"
  shows "match_range (''bytes='' @ da @ ''-'' @ db) = Some (da, db)"
  using regex_at_bytes [OF assms] by simp

lemma parseInt_digits: "list_all is_digit ds \<Longrightarrow> ds \<noteq> [] \<Longrightarrow> parseInt ds = Number (decimal ds)"
  by (simp add: parseInt_def takeWhile_all)

lemma parseInt_empty: "parseInt [] = NaN"
  by (simp add: parseInt_def)

text \<open>Decimal digits: printing a natural number and reading it back.\<close>

lemma small_cases:
  assumes "k < (10::nat)"
  shows "k = 0 \<or> k = 1 \<or> k = 2 \<or> k = 3 \<or> k = 4 \<or> k = 5 \<or> k = 6 \<or> k = 7 \<or> k = 8 \<or> k = 9"
  using assms by arith

lemma digit_char_props:
  assumes "k < (10::nat)"
  shows "is_digit (''0123456789'' ! k)" and "digit_value (''0123456789'' ! k) = int k"
  using small_cases [OF assms] by (auto simp add: is_digit_def digit_value_def)

lemma decimal_snoc: "decimal (ds @ [c]) = 10 * decimal ds + digit_value c"
  by (simp add: decimal_def)

lemma digits_of_props:
  "list_all is_digit (digits_of n) \<and> digits_of n \<noteq> [] \<and> decimal (digits_of n) = int n"
proof (induction n rule: digits_of.induct)
  case (1 n)
  show ?case
  proof (cases "n < 10")
    case True
    then show ?thesis
      using digit_char_props [of n] by (simp add: digits_of.simps [of n] decimal_def)
  next
    case False
    have m: "n mod 10 < 10" by simp
    from False 1 have ih: "list_all is_digit (digits_of (n div 10))" "digits_of (n div 10) \<noteq> []"
      "decimal (digits_of (n div 10)) = int (n div 10)"
      by simp_all
    have "n = 10 * (n div 10) + n mod 10"
      by simp
    then have "int n = int (10 * (n div 10) + n mod 10)"
      by simp
    then have "int n = 10 * int (n div 10) + int (n mod 10)"
      by (simp only: of_nat_add of_nat_mult of_nat_numeral)
    then show ?thesis
      using False ih digit_char_props [OF m]
      by (simp add: digits_of.simps [of n] decimal_snoc)
  qed
qed

lemma toString_roundtrip:
  assumes "0 \<le> n"
  shows "list_all is_digit (toString (Number n))" and "toString (Number n) \<noteq> []"
    and "decimal (toString (Number n)) = n" and "parseInt (toString (Number n)) = Number n"
  using assms digits_of_props [of "nat n"] by (simp_all add: parseInt_digits)

lemma digit_value_nonneg: "is_digit c \<Longrightarrow> 0 \<le> digit_value c"
  by (auto simp: is_digit_def digit_value_def)

lemma foldl_decimal_nonneg:
  "list_all is_digit ds \<Longrightarrow> 0 \<le> acc \<Longrightarrow> 0 \<le> foldl (\<lambda>acc c. 10 * acc + digit_value c) acc ds"
proof (induction ds arbitrary: acc)
  case Nil
  then show ?case by simp
next
  case (Cons c ds)
  from Cons.prems have "0 \<le> 10 * acc + digit_value c"
    using digit_value_nonneg [of c] by simp
  with Cons show ?case by simp
qed

lemma decimal_nonneg: "list_all is_digit ds \<Longrightarrow> 0 \<le> decimal ds"
  by (simp add: decimal_def foldl_decimal_nonneg)

lemma match_range_suffix:
  assumes "list_all is_digit ds"
  shows "match_range (''bytes=-'' @ ds) = Some ([], ds)"
  using match_range_bytes [of "[]" ds] assms by simp

lemma match_range_open:
  assumes "list_all is_digit ds"
  shows "match_range (''bytes='' @ ds @ ''-'') = Some (ds, [])"
  using match_range_bytes [of ds "[]"] assms by simp

lemma bounds_suffix:
  assumes "list_all is_digit ds" "ds \<noteq> []"
  shows "handleRangeRequest_bounds ([], ds) contentType S = (Number (max (S - decimal ds) 0), Number (S - 1))"
  using assms by (simp add: handleRangeRequest_bounds_def parseInt_digits)

lemma bounds_open:
  assumes "list_all is_digit ds" "ds \<noteq> []"
  shows "handleRangeRequest_bounds (ds, []) contentType S
         = (Number (decimal ds), Number (min (decimal ds + spec_chunkSize contentType - 1) (S - 1)))"
  using assms
  by (simp add: handleRangeRequest_bounds_def parseInt_digits spec_chunkSize_def
      VIDEO_CHUNK_SIZE_def AUDIO_CHUNK_SIZE_def DEFAULT_CHUNK_SIZE_def)

lemma bounds_explicit:
  assumes "list_all is_digit da" "da \<noteq> []" "list_all is_digit db" "db \<noteq> []"
  shows "handleRangeRequest_bounds (da, db) contentType S = (Number (decimal da), Number (decimal db))"
  using assms by (simp add: handleRangeRequest_bounds_def parseInt_digits)

text \<open>A served range that does not start at byte 0: one range read, no cache.\<close>

lemma handleRangeRequest_later_chunk_trace:
  assumes "match_range h = Some m"
    and "handleRangeRequest_bounds m contentType S = (Number a, Number b)"
    and "0 < a" "a < S" "a \<le> b"
  shows "trace (snd (handleRangeRequest request w fileKey h contentType S cacheControl))
         = trace w @ [BucketGetRange fileKey (Number a) (Number (b - a + 1))]"
  using assms
  by (simp add: handleRangeRequest_def bucket_get_range_def
      split: option.splits sum.splits r2ObjectBody.splits)

lemma handleRangeRequest_served:
  assumes m: "match_range h = Some m"
    and b: "handleRangeRequest_bounds m contentType S = (Number a, Number b)"
    and r: "0 \<le> a" "a < S" "a \<le> b"
    and c: "a = 0 \<longrightarrow> faults w (CacheMatch (rangeCacheUrl fileKey (Number b))) = None
                     \<and> cache_data w (rangeCacheUrl fileKey (Number b)) = None"
    and f: "faults w (BucketGetRange fileKey (Number a) (Number (b - a + 1))) = None"
    and s: "r2_get_range w fileKey (Number a) (Number (b - a + 1)) = Some (R2ObjectBody (Some bs))"
  shows "fst (handleRangeRequest request w fileKey h contentType S cacheControl)
         = Resolved \<lparr>status = 206,
                     headers = buildRangeHeaders contentType (Number a) (Number b) (Number S) cacheControl,
                     body = BytesBody bs\<rparr>"
proof (cases "a = 0")
  case True
  with c have c': "faults w (CacheMatch (rangeCacheUrl fileKey (Number b))) = None"
    "cache_data w (rangeCacheUrl fileKey (Number b)) = None" by simp_all
  show ?thesis
    using m b r f s c' True
    by (simp add: handleRangeRequest_def caches_match_def bucket_get_range_def Let_def)
next
  case False
  then show ?thesis
    using m b r f s
    by (simp add: handleRangeRequest_def bucket_get_range_def Let_def)
qed

lemma buildRangeHeaders_Content_Range:
  "buildRangeHeaders contentType start end' totalSize cacheControl ''Content-Range''
   = Some (''bytes '' @ toString start @ ''-'' @ toString end' @ ''/'' @ toString totalSize)"
  by (simp add: buildRangeHeaders_def corsHeaders_def map_add_def)

lemma buildRangeHeaders_Content_Length:
  "buildRangeHeaders contentType start end' totalSize cacheControl ''Content-Length''
   = Some (toString (js_add (js_sub end' start) (Number 1)))"
  by (simp add: buildRangeHeaders_def corsHeaders_def map_add_def)

lemmas eval_defs =
  handleFileStream_def handleFileStream_try_def handleFileStream_object_def truthy_def
  handleFileStream_kv_def handleFileStream_r2_def
  handleRangeRequest_def handleRangeRequest_bounds_def rangeCacheUrl_def
  caches_match_def bucket_head_def bucket_get_def bucket_get_range_def KV_get_def
  caches_put_def KV_put_def getCacheKey_def getKVKey_def KV_NAMESPACE_def getCacheConfig_def
  CACHE_CONFIGS_image_def CACHE_CONFIGS_video_def CACHE_CONFIGS_audio_def
  VIDEO_CHUNK_SIZE_def AUDIO_CHUNK_SIZE_def DEFAULT_CHUNK_SIZE_def
  regex_at_def startsWith_def is_digit_def parseInt_def decimal_def digit_value_def
  digits_of.simps Let_def response_status_def response_header_def
  buildRangeHeaders_def buildResponseHeaders_def corsHeaders_def jsonResponse_def map_add_def
  demo_world_def demo_objects_def

subsection \<open>First chunks and the edge cache\<close>

lemma handleRangeRequest_first_chunk_large:
  assumes m: "match_range h = Some m"
    and b: "handleRangeRequest_bounds m contentType S = (Number 0, Number b)"
    and r: "0 < S" "512 * 1024 < b + 1"
    and c: "faults w (CacheMatch (rangeCacheUrl fileKey (Number b))) = None"
           "cache_data w (rangeCacheUrl fileKey (Number b)) = None"
    and f: "faults w (BucketGetRange fileKey (Number 0) (Number (b + 1))) = None"
    and s: "r2_get_range w fileKey (Number 0) (Number (b + 1)) = Some (R2ObjectBody (Some bs))"
  shows "handleRangeRequest request w fileKey h contentType S cacheControl
         = (Resolved \<lparr>status = 206,
                      headers = buildRangeHeaders contentType (Number 0) (Number b) (Number S) cacheControl,
                      body = BytesBody bs\<rparr>,
            w\<lparr>trace := trace w @ [CacheMatch (rangeCacheUrl fileKey (Number b)),
                                    BucketGetRange fileKey (Number 0) (Number (b + 1))]\<rparr>)"
  using assms
  by (simp add: handleRangeRequest_def caches_match_def bucket_get_range_def Let_def)

lemma match_range_scenario: "match_range ''bytes=0-2097151'' = Some (''0'', ''2097151'')"
  using match_range_bytes [of "''0''" "''2097151''"] by (simp add: is_digit_def)

lemma bounds_scenario:
  "handleRangeRequest_bounds (''0'', ''2097151'') contentType 52428800 = (Number 0, Number 2097151)"
  using bounds_explicit [of "''0''" "''2097151''" contentType 52428800]
  by (simp add: is_digit_def decimal_def digit_value_def)

text \<open>
  A first chunk of at most 512 KiB is stored in the edge cache, and a stored chunk is
  returned without a read of the object store.
\<close>

lemma handleRangeRequest_first_chunk_small:
  assumes m: "match_range h = Some m"
    and b: "handleRangeRequest_bounds m contentType S = (Number 0, Number b)"
    and r: "0 < S" "0 \<le> b" "b + 1 \<le> 512 * 1024"
    and c: "faults w (CacheMatch (rangeCacheUrl fileKey (Number b))) = None"
           "cache_data w (rangeCacheUrl fileKey (Number b)) = None"
           "faults w (CachePut (rangeCacheUrl fileKey (Number b))) = None"
    and f: "faults w (BucketGetRange fileKey (Number 0) (Number (b + 1))) = None"
    and s: "r2_get_range w fileKey (Number 0) (Number (b + 1)) = Some (R2ObjectBody (Some bs))"
  shows "handleRangeRequest request w fileKey h contentType S cacheControl
         = (Resolved \<lparr>status = 206,
                      headers = buildRangeHeaders contentType (Number 0) (Number b) (Number S) cacheControl,
                      body = BytesBody bs\<rparr>,
            w\<lparr>cache_data := (cache_data w)(rangeCacheUrl fileKey (Number b) \<mapsto>
                   \<lparr>status = 206,
                    headers = buildRangeHeaders contentType (Number 0) (Number b) (Number S) cacheControl,
                    body = BytesBody bs\<rparr>),
              trace := trace w @ [CacheMatch (rangeCacheUrl fileKey (Number b)),
                                  BucketGetRange fileKey (Number 0) (Number (b + 1)),
                                  CachePut (rangeCacheUrl fileKey (Number b))]\<rparr>)"
  using assms
  by (simp add: handleRangeRequest_def caches_match_def bucket_get_range_def caches_put_def Let_def)

lemma handleRangeRequest_first_chunk_hit:
  assumes m: "match_range h = Some m"
    and b: "handleRangeRequest_bounds m contentType S = (Number 0, Number b)"
    and r: "0 < S" "0 \<le> b"
    and c: "faults w (CacheMatch (rangeCacheUrl fileKey (Number b))) = None"
           "cache_data w (rangeCacheUrl fileKey (Number b)) = Some cachedChunk"
  shows "handleRangeRequest request w fileKey h contentType S cacheControl
         = (Resolved cachedChunk,
            w\<lparr>trace := trace w @ [CacheMatch (rangeCacheUrl fileKey (Number b))]\<rparr>)"
  using assms
  by (simp add: handleRangeRequest_def caches_match_def Let_def)

subsection \<open>A failing read of the key-value tier\<close>

lemma kv_read_misses_fields:
  "bucket_bound (kv_read_misses w k) = bucket_bound w"
  "r2_head (kv_read_misses w k) = r2_head w"
  "r2_get (kv_read_misses w k) = r2_get w"
  "r2_get_range (kv_read_misses w k) = r2_get_range w"
  "kv_bound (kv_read_misses w k) = kv_bound w"
  "cache_data (kv_read_misses w k) = cache_data w"
  "trace (kv_read_misses w k) = trace w"
  "faults (kv_read_misses w k) (CacheMatch u) = faults w (CacheMatch u)"
  "faults (kv_read_misses w k) (CachePut u) = faults w (CachePut u)"
  "faults (kv_read_misses w k) (BucketHead u) = faults w (BucketHead u)"
  "faults (kv_read_misses w k) (BucketGet u) = faults w (BucketGet u)"
  "faults (kv_read_misses w k) (BucketGetRange u a b) = faults w (BucketGetRange u a b)"
  "faults (kv_read_misses w k) (KVPut u n) = faults w (KVPut u n)"
  "faults (kv_read_misses w k) (KVGet (getKVKey k)) = None"
  "kv_data (kv_read_misses w k) (getKVKey k) = None"
  by (simp_all add: kv_read_misses_def)

lemma kv_read_misses_trace_update:
  "kv_read_misses w k\<lparr>trace := t\<rparr> = kv_read_misses (w\<lparr>trace := t\<rparr>) k"
  by (simp add: kv_read_misses_def)

lemma kv_throw_falls_through:
  assumes "faults w (KVGet (getKVKey fileKey)) = Some e"
  shows "handleFileStream_kv w fileKey contentType fileSize config cacheKey
         = (None, if shouldCacheInKV config \<and> fileSize \<le> maxKVSize config \<and> kv_bound w
                  then w\<lparr>trace := trace w @ [KVGet (getKVKey fileKey)]\<rparr> else w)"
  using assms by (simp add: handleFileStream_kv_def KV_get_def)

lemma kv_miss_falls_through:
  "handleFileStream_kv (kv_read_misses w fileKey) fileKey contentType fileSize config cacheKey
   = (None, kv_read_misses
              (if shouldCacheInKV config \<and> fileSize \<le> maxKVSize config \<and> kv_bound w
               then w\<lparr>trace := trace w @ [KVGet (getKVKey fileKey)]\<rparr> else w) fileKey)"
  by (simp add: handleFileStream_kv_def KV_get_def kv_read_misses_fields kv_read_misses_trace_update)

lemma r2_kv_read_misses:
  "fst (handleFileStream_r2 (kv_read_misses w k) fileKey contentType fileSize config cacheKey)
     = fst (handleFileStream_r2 w fileKey contentType fileSize config cacheKey)"
  "trace (snd (handleFileStream_r2 (kv_read_misses w k) fileKey contentType fileSize config cacheKey))
     = trace (snd (handleFileStream_r2 w fileKey contentType fileSize config cacheKey))"
  by (auto simp add: handleFileStream_r2_def bucket_get_def caches_put_def KV_put_def Let_def
      kv_read_misses_fields split: option.splits r2ObjectBody.splits)

lemma range_kv_read_misses:
  "fst (handleRangeRequest request (kv_read_misses w k) fileKey h contentType S cacheControl)
     = fst (handleRangeRequest request w fileKey h contentType S cacheControl)"
  "trace (snd (handleRangeRequest request (kv_read_misses w k) fileKey h contentType S cacheControl))
     = trace (snd (handleRangeRequest request w fileKey h contentType S cacheControl))"
  by (auto simp add: handleRangeRequest_def caches_match_def bucket_get_range_def caches_put_def Let_def
      kv_read_misses_fields split: option.splits r2ObjectBody.splits prod.splits)

lemma lift_r2_result:
  "fst (case p of (Inl e, w2) \<Rightarrow> (Inl e, w2) | (Inr response, w2) \<Rightarrow> (Inr (Resolved response), w2))
     = (case fst p of Inl e \<Rightarrow> Inl e | Inr response \<Rightarrow> Inr (Resolved response))"
  "snd (case p of (Inl e, w2) \<Rightarrow> (Inl e, w2) | (Inr response, w2) \<Rightarrow> (Inr (Resolved response), w2))
     = snd p"
  by (cases p; cases "fst p"; simp)+

lemma lift_range_result:
  "fst (case p of (oc, w1) \<Rightarrow> (Inr oc, w1)) = Inr (fst p)"
  "snd (case p of (oc, w1) \<Rightarrow> (Inr oc, w1)) = snd p"
  by (cases p; simp)+

lemma object_kv_read_misses:
  assumes "faults w (KVGet (getKVKey fileKey)) = Some e"
  shows "fst (handleFileStream_object request (kv_read_misses w fileKey) fileKey cacheKey info)
           = fst (handleFileStream_object request w fileKey cacheKey info)"
    and "trace (snd (handleFileStream_object request (kv_read_misses w fileKey) fileKey cacheKey info))
           = trace (snd (handleFileStream_object request w fileKey cacheKey info))"
  using assms
  by (simp_all add: handleFileStream_object_def Let_def
      kv_throw_falls_through kv_miss_falls_through r2_kv_read_misses range_kv_read_misses
      lift_r2_result lift_range_result kv_read_misses_fields)

lemma try_kv_read_misses:
  assumes "faults w (KVGet (getKVKey fileKey)) = Some e"
  shows "fst (handleFileStream_try request (kv_read_misses w fileKey) fileKey)
           = fst (handleFileStream_try request w fileKey)
       \<and> trace (snd (handleFileStream_try request (kv_read_misses w fileKey) fileKey))
           = trace (snd (handleFileStream_try request w fileKey))"
proof -
  have t: "faults (w\<lparr>trace := t\<rparr>) (KVGet (getKVKey fileKey)) = Some e" for t
    using assms by simp
  show ?thesis
    by (simp add: handleFileStream_try_def Let_def caches_match_def bucket_head_def
        kv_read_misses_fields kv_read_misses_trace_update
        object_kv_read_misses [OF t]
        split: option.splits)
qed

lemma kv_read_failure_same_response:
  assumes "faults w (KVGet (getKVKey fileKey)) = Some e"
  shows "fst (handleFileStream request (kv_read_misses w fileKey) fileKey)
           = fst (handleFileStream request w fileKey)
       \<and> trace (snd (handleFileStream request (kv_read_misses w fileKey) fileKey))
           = trace (snd (handleFileStream request w fileKey))"
proof -
  have o: "fst (handleFileStream request v fileKey)
           = (case fst (handleFileStream_try request v fileKey) of
                Inr oc \<Rightarrow> oc
              | Inl error \<Rightarrow>
                  Resolved (jsonResponse
                    [(''error'', ''Internal server error''),
                     (''details'', case error of Error message \<Rightarrow> message | NonError \<Rightarrow> ''Unknown error'')]
                    500))" for v
    by (cases "handleFileStream_try request v fileKey"; cases "fst (handleFileStream_try request v fileKey)")
       (simp_all add: handleFileStream_def)
  have s: "snd (handleFileStream request v fileKey) = snd (handleFileStream_try request v fileKey)" for v
    by (cases "handleFileStream_try request v fileKey"; cases "fst (handleFileStream_try request v fileKey)")
       (simp_all add: handleFileStream_def)
  show ?thesis
    using try_kv_read_misses [OF assms, of request] by (simp add: o s)
qed

lemma try_reaches_object:
  assumes "fileKey \<noteq> []" and "\<not> includes_str fileKey ''..''" and "bucket_bound w"
    and "faults w (CacheMatch (getCacheKey fileKey)) = None"
    and "truthy (range_header request) \<or> cache_data w (getCacheKey fileKey) = None"
    and "faults w (BucketHead fileKey) = None"
    and "r2_head w fileKey = Some info"
  shows "handleFileStream_try request w fileKey
         = handleFileStream_object request
             (w\<lparr>trace := trace w @ [CacheMatch (getCacheKey fileKey), BucketHead fileKey]\<rparr>)
             fileKey (getCacheKey fileKey) info"
  using assms
  by (auto simp add: handleFileStream_try_def Let_def caches_match_def bucket_head_def)

lemma handleFileStream_fst:
  "fst (handleFileStream request v fileKey)
   = (case fst (handleFileStream_try request v fileKey) of
        Inr oc \<Rightarrow> oc
      | Inl error \<Rightarrow>
          Resolved (jsonResponse
            [(''error'', ''Internal server error''),
             (''details'', case error of Error message \<Rightarrow> message | NonError \<Rightarrow> ''Unknown error'')]
            500))"
  by (cases "handleFileStream_try request v fileKey"; cases "fst (handleFileStream_try request v fileKey)")
     (simp_all add: handleFileStream_def)

lemma handleFileStream_snd:
  "snd (handleFileStream request v fileKey) = snd (handleFileStream_try request v fileKey)"
  by (cases "handleFileStream_try request v fileKey"; cases "fst (handleFileStream_try request v fileKey)")
     (simp_all add: handleFileStream_def)

lemma r2_trace_starts_with_get:
  "\<exists>rest. trace (snd (handleFileStream_r2 w fileKey contentType fileSize config cacheKey))
          = trace w @ BucketGet fileKey # rest"
  by (auto simp add: handleFileStream_r2_def bucket_get_def caches_put_def KV_put_def Let_def
      split: option.splits r2ObjectBody.splits)

lemma image_config:
  "startsWith contentType ''image/'' \<Longrightarrow> getCacheConfig contentType = CACHE_CONFIGS_image"
  by (simp add: getCacheConfig_def)

lemma audio_config:
  "startsWith contentType ''audio/'' \<Longrightarrow> getCacheConfig contentType = CACHE_CONFIGS_audio"
  by (auto simp add: getCacheConfig_def startsWith_def)

lemma image_not_streamed:
  "startsWith contentType ''image/'' \<Longrightarrow> \<not> startsWith contentType ''video/''"
  "startsWith contentType ''image/'' \<Longrightarrow> \<not> startsWith contentType ''audio/''"
  by (auto simp add: startsWith_def)

lemma kv_eligible_types:
  assumes "startsWith contentType ''image/'' \<or> startsWith contentType ''audio/''"
  shows "shouldCacheInKV (getCacheConfig contentType)"
  using assms
  by (auto simp add: image_config audio_config CACHE_CONFIGS_image_def CACHE_CONFIGS_audio_def)

lemma object_after_kv_throw:
  assumes "info_contentType info = Some contentType"
    and "startsWith contentType ''image/'' \<or> (startsWith contentType ''audio/'' \<and> \<not> truthy (range_header request))"
    and "info_size info \<le> maxKVSize (getCacheConfig contentType)" and "kv_bound w"
    and "faults w (KVGet (getKVKey fileKey)) = Some e"
  shows "\<exists>rest. trace (snd (handleFileStream_object request w fileKey cacheKey info))
          = trace w @ [KVGet (getKVKey fileKey), BucketGet fileKey] @ rest"
proof -
  have ne: "contentType \<noteq> []"
    using assms(2) by (auto simp add: startsWith_def)
  have el: "shouldCacheInKV (getCacheConfig contentType)"
    using assms(2) kv_eligible_types by blast
  have nr: "\<not> (truthy (range_header request)
             \<and> (startsWith contentType ''video/'' \<or> startsWith contentType ''audio/''))"
    using assms(2) image_not_streamed by blast
  have media: "\<not> (\<not> startsWith contentType ''image/'' \<and> \<not> startsWith contentType ''video/''
                 \<and> \<not> startsWith contentType ''audio/'')"
    using assms(2) by blast
  obtain rest where r: "trace (snd (handleFileStream_r2 (w\<lparr>trace := trace w @ [KVGet (getKVKey fileKey)]\<rparr>)
                          fileKey contentType (info_size info) (getCacheConfig contentType) cacheKey))
                        = (trace w @ [KVGet (getKVKey fileKey)]) @ BucketGet fileKey # rest"
    using r2_trace_starts_with_get [of "w\<lparr>trace := trace w @ [KVGet (getKVKey fileKey)]\<rparr>"
        fileKey contentType "info_size info" "getCacheConfig contentType" cacheKey]
    by auto
  have "trace (snd (handleFileStream_object request w fileKey cacheKey info))
        = trace w @ [KVGet (getKVKey fileKey), BucketGet fileKey] @ rest"
    using assms(1,3,4,5) ne el nr media r
    by (auto simp add: handleFileStream_object_def Let_def kv_throw_falls_through lift_r2_result)
  then show ?thesis by blast
qed

subsection \<open>Images\<close>

lemma cache_key_not_range: "\<not> range_responder_call (CachePut (getCacheKey fileKey))"
  by (simp add: range_responder_call_def getCacheKey_def startsWith_def)

lemma object_image:
  assumes "info_contentType info = Some contentType" and "startsWith contentType ''image/''"
  shows "handleFileStream_object request w fileKey cacheKey info
         = (case handleFileStream_kv w fileKey contentType (info_size info) CACHE_CONFIGS_image cacheKey of
              (Some response, w1) \<Rightarrow> (Inr (Resolved response), w1)
            | (None, w1) \<Rightarrow>
                (case handleFileStream_r2 w1 fileKey contentType (info_size info) CACHE_CONFIGS_image cacheKey of
                   (Inl e, w2) \<Rightarrow> (Inl e, w2)
                 | (Inr response, w2) \<Rightarrow> (Inr (Resolved response), w2)))"
proof -
  have ne: "contentType \<noteq> []"
    using assms(2) by (auto simp add: startsWith_def)
  show ?thesis
    using assms ne image_not_streamed [OF assms(2)]
    by (simp add: handleFileStream_object_def Let_def image_config)
qed

lemma whole_object_headers:
  "buildResponseHeaders contentType n cacheControl cacheStatus ''X-Cache'' = Some cacheStatus"
  "buildResponseHeaders contentType n cacheControl cacheStatus ''Content-Range'' = None"
  by (simp_all add: buildResponseHeaders_def corsHeaders_def map_add_def)

lemma json_headers:
  "headers (jsonResponse obj st) ''X-Cache'' = None"
  "headers (jsonResponse obj st) ''Content-Range'' = None"
  "status (jsonResponse obj st) = st"
  by (simp_all add: jsonResponse_def corsHeaders_def map_add_def)

lemma kv_world:
  "faults (snd (handleFileStream_kv w fileKey contentType fileSize config cacheKey)) = faults w"
  "r2_get (snd (handleFileStream_kv w fileKey contentType fileSize config cacheKey)) = r2_get w"
  by (simp_all add: handleFileStream_kv_def KV_get_def caches_put_def Let_def
      split: option.splits)

lemma kv_trace:
  assumes "\<not> range_responder_call (CachePut cacheKey)"
  shows "filter range_responder_call (trace (snd (handleFileStream_kv w fileKey contentType fileSize config cacheKey)))
         = filter range_responder_call (trace w)"
  using assms
  by (simp add: handleFileStream_kv_def KV_get_def caches_put_def Let_def range_responder_call_def
      split: option.splits)

lemma kv_response:
  assumes "fst (handleFileStream_kv w fileKey contentType fileSize config cacheKey) = Some r"
  shows "status r = 200 \<and> headers r ''X-Cache'' = Some ''HIT-KV'' \<and> headers r ''Content-Range'' = None"
  using assms
  by (auto simp add: handleFileStream_kv_def KV_get_def Let_def whole_object_headers
      split: option.splits if_splits)

lemma r2_trace:
  assumes "\<not> range_responder_call (CachePut cacheKey)"
  shows "filter range_responder_call (trace (snd (handleFileStream_r2 w fileKey contentType fileSize config cacheKey)))
         = filter range_responder_call (trace w)"
  using assms
  by (simp add: handleFileStream_r2_def bucket_get_def caches_put_def KV_put_def Let_def
      range_responder_call_def split: option.splits r2ObjectBody.splits)

lemma r2_response:
  assumes "fst (handleFileStream_r2 w fileKey contentType fileSize config cacheKey) = Inr r"
  shows "status r \<noteq> 206 \<and> headers r ''X-Cache'' \<noteq> Some ''HIT-WORKERS''"
  using assms
  by (auto simp add: handleFileStream_r2_def bucket_get_def Let_def whole_object_headers json_headers
      split: option.splits r2ObjectBody.splits if_splits)

lemma r2_delivers:
  assumes "faults w (BucketGet fileKey) = None" and "r2_get w fileKey = Some (R2ObjectBody (Some b))"
  shows "\<exists>r. fst (handleFileStream_r2 w fileKey contentType fileSize config cacheKey) = Inr r
             \<and> status r = 200 \<and> headers r ''Content-Range'' = None \<and> body r = BytesBody b"
  using assms
  by (simp add: handleFileStream_r2_def bucket_get_def Let_def whole_object_headers)

lemma photo_key_valid:
  "''celebrity/demo/photo.webp'' \<noteq> []"
  "\<not> (\<exists>a b. ''celebrity/demo/photo.webp'' = a @ ''..'' @ b)"
proof -
  have "\<not> includes_str ''celebrity/demo/photo.webp'' ''..''"
    by (simp add: startsWith_def)
  then show "\<not> (\<exists>a b. ''celebrity/demo/photo.webp'' = a @ ''..'' @ b)"
    by (simp add: includes_str_iff)
qed simp

text \<open>An image requested with a range header: the status, and the whole response.\<close>

lemma image_range_status:
  assumes "fileKey \<noteq> []" and "\<not> (\<exists>a b. fileKey = a @ ''..'' @ b)" and "bucket_bound w"
    and "truthy (range_header request)"
    and "faults w (CacheMatch (getCacheKey fileKey)) = None"
    and "faults w (BucketHead fileKey) = None"
    and "r2_head w fileKey = Some info" and "info_contentType info = Some contentType"
    and "startsWith contentType ''image/''"
  shows "response_status (fst (handleFileStream request w fileKey)) \<noteq> Some 206
       \<and> response_header (fst (handleFileStream request w fileKey)) ''X-Cache'' \<noteq> Some ''HIT-WORKERS''
       \<and> filter range_responder_call (trace (snd (handleFileStream request w fileKey)))
           = filter range_responder_call (trace w)
       \<and> (faults w (BucketGet fileKey) = None \<and> r2_get w fileKey = Some (R2ObjectBody (Some b)) \<longrightarrow>
            response_status (fst (handleFileStream request w fileKey)) = Some 200
            \<and> response_header (fst (handleFileStream request w fileKey)) ''Content-Range'' = None)"
proof -
  let ?ck = "getCacheKey fileKey"
  let ?w2 = "w\<lparr>trace := trace w @ [CacheMatch ?ck, BucketHead fileKey]\<rparr>"
  let ?kv = "handleFileStream_kv ?w2 fileKey contentType (info_size info) CACHE_CONFIGS_image ?ck"
  have k: "\<not> includes_str fileKey ''..''"
    using assms(2) by (simp add: includes_str_iff)
  have t: "handleFileStream_try request w fileKey
           = handleFileStream_object request ?w2 fileKey ?ck info"
    using assms(1) k assms(3) assms(5) _ assms(6,7)
    by (rule try_reaches_object) (simp add: assms(4))
  have o: "handleFileStream_try request w fileKey
           = (case ?kv of
                (Some response, w1) \<Rightarrow> (Inr (Resolved response), w1)
              | (None, w1) \<Rightarrow>
                  (case handleFileStream_r2 w1 fileKey contentType (info_size info) CACHE_CONFIGS_image ?ck of
                     (Inl e, w2) \<Rightarrow> (Inl e, w2)
                   | (Inr response, w2) \<Rightarrow> (Inr (Resolved response), w2)))"
    unfolding t by (rule object_image [OF assms(8,9)])
  obtain kvr w1 where kv: "?kv = (kvr, w1)"
    by (cases ?kv)
  let ?r2 = "handleFileStream_r2 w1 fileKey contentType (info_size info) CACHE_CONFIGS_image ?ck"
  obtain res w3 where r2: "?r2 = (res, w3)"
    by (cases ?r2)
  have w1: "faults w1 = faults w" "r2_get w1 = r2_get w"
    using kv_world [of ?w2 fileKey contentType "info_size info" CACHE_CONFIGS_image ?ck] kv
    by simp_all
  have tr_kv: "filter range_responder_call (trace w1) = filter range_responder_call (trace w)"
    using kv_trace [of ?ck ?w2 fileKey contentType "info_size info" CACHE_CONFIGS_image, OF cache_key_not_range] kv
    by (simp add: range_responder_call_def getCacheKey_def startsWith_def)
  have tr_r2: "filter range_responder_call (trace w3) = filter range_responder_call (trace w)"
    using r2_trace [of ?ck w1 fileKey contentType "info_size info" CACHE_CONFIGS_image, OF cache_key_not_range]
      tr_kv r2 by simp
  show ?thesis
  proof (cases kvr)
    case (Some r)
    have res: "handleFileStream request w fileKey = (Resolved r, w1)"
      using o kv Some by (simp add: handleFileStream_def)
    have "fst ?kv = Some r"
      using kv Some by simp
    from kv_response [OF this] tr_kv show ?thesis
      by (simp add: res response_status_def response_header_def)
  next
    case None
    show ?thesis
    proof (cases res)
      case (Inl e)
      have res: "handleFileStream request w fileKey
                 = (Resolved (jsonResponse
                      [(''error'', ''Internal server error''),
                       (''details'', case e of Error message \<Rightarrow> message | NonError \<Rightarrow> ''Unknown error'')]
                      500), w3)"
        using o kv None r2 Inl by (simp add: handleFileStream_def)
      have nd: "\<not> (faults w (BucketGet fileKey) = None \<and> r2_get w fileKey = Some (R2ObjectBody (Some b)))"
      proof
        assume d: "faults w (BucketGet fileKey) = None \<and> r2_get w fileKey = Some (R2ObjectBody (Some b))"
        from r2_delivers [of w1 fileKey b contentType "info_size info" CACHE_CONFIGS_image ?ck] d
        obtain r where "fst ?r2 = Inr r"
          by (auto simp add: w1)
        with r2 Inl show False by simp
      qed
      from tr_r2 nd show ?thesis
        by (simp add: res response_status_def response_header_def json_headers)
    next
      case (Inr r)
      have res: "handleFileStream request w fileKey = (Resolved r, w3)"
        using o kv None r2 Inr by (simp add: handleFileStream_def)
      have f: "fst ?r2 = Inr r"
        using r2 Inr by simp
      have d: "status r = 200 \<and> headers r ''Content-Range'' = None"
        if "faults w (BucketGet fileKey) = None \<and> r2_get w fileKey = Some (R2ObjectBody (Some b))"
        using r2_delivers [of w1 fileKey b contentType "info_size info" CACHE_CONFIGS_image ?ck] that f
        by (auto simp add: w1)
      from r2_response [OF f] tr_r2 d show ?thesis
        by (auto simp add: res response_status_def response_header_def)
    qed
  qed
qed

lemma kv_hit:
  assumes "shouldCacheInKV config" and "fileSize \<le> maxKVSize config" and "kv_bound w"
    and "faults w (KVGet (getKVKey fileKey)) = None"
    and "kv_data w (getKVKey fileKey) = Some kvData"
  shows "fst (handleFileStream_kv w fileKey contentType fileSize config cacheKey)
         = Some \<lparr>status = 200,
                 headers = buildResponseHeaders contentType (Number (int (length kvData)))
                             (browserCache config) ''HIT-KV'',
                 body = BytesBody kvData\<rparr>"
    and "trace (snd (handleFileStream_kv w fileKey contentType fileSize config cacheKey))
         = trace w @ [KVGet (getKVKey fileKey), CachePut cacheKey]"
  using assms
  by (simp_all add: handleFileStream_kv_def KV_get_def caches_put_def Let_def split: option.splits)

lemma kv_not_hit:
  assumes "\<not> (shouldCacheInKV config \<and> fileSize \<le> maxKVSize config \<and> kv_bound w
              \<and> faults w (KVGet (getKVKey fileKey)) = None
              \<and> kv_data w (getKVKey fileKey) \<noteq> None)"
  shows "fst (handleFileStream_kv w fileKey contentType fileSize config cacheKey) = None"
  using assms
  by (auto simp add: handleFileStream_kv_def KV_get_def Let_def split: option.splits)

lemma r2_delivers_response:
  assumes "faults w (BucketGet fileKey) = None" and "r2_get w fileKey = Some (R2ObjectBody (Some b))"
  shows "fst (handleFileStream_r2 w fileKey contentType fileSize config cacheKey)
         = Inr \<lparr>status = 200,
                headers = buildResponseHeaders contentType (Number fileSize) (browserCache config) ''MISS'',
                body = BytesBody b\<rparr>"
  using assms
  by (simp add: handleFileStream_r2_def bucket_get_def Let_def)

lemma image_range_response:
  assumes "fileKey \<noteq> []" and "\<not> (\<exists>a b. fileKey = a @ ''..'' @ b)" and "bucket_bound w"
    and "truthy (range_header request)"
    and "faults w (CacheMatch (getCacheKey fileKey)) = None"
    and "faults w (BucketHead fileKey) = None"
    and "r2_head w fileKey = Some info" and "info_contentType info = Some contentType"
    and "startsWith contentType ''image/''"
  shows "info_size info \<le> maxKVSize CACHE_CONFIGS_image \<and> kv_bound w
         \<and> faults w (KVGet (getKVKey fileKey)) = None
         \<and> kv_data w (getKVKey fileKey) = Some kvData \<longrightarrow>
           fst (handleFileStream request w fileKey)
           = Resolved \<lparr>status = 200,
                        headers = buildResponseHeaders contentType (Number (int (length kvData)))
                                    (browserCache CACHE_CONFIGS_image) ''HIT-KV'',
                        body = BytesBody kvData\<rparr>
           \<and> trace (snd (handleFileStream request w fileKey))
             = trace w @ [CacheMatch (getCacheKey fileKey), BucketHead fileKey,
                          KVGet (getKVKey fileKey), CachePut (getCacheKey fileKey)]"
    and "\<not> (info_size info \<le> maxKVSize CACHE_CONFIGS_image \<and> kv_bound w
            \<and> faults w (KVGet (getKVKey fileKey)) = None
            \<and> kv_data w (getKVKey fileKey) \<noteq> None)
         \<and> faults w (BucketGet fileKey) = None
         \<and> r2_get w fileKey = Some (R2ObjectBody (Some b)) \<longrightarrow>
           fst (handleFileStream request w fileKey)
           = Resolved \<lparr>status = 200,
                        headers = buildResponseHeaders contentType (Number (info_size info))
                                    (browserCache CACHE_CONFIGS_image) ''MISS'',
                        body = BytesBody b\<rparr>
           \<and> BucketGet fileKey \<in> set (trace (snd (handleFileStream request w fileKey)))"
proof -
  let ?ck = "getCacheKey fileKey"
  let ?w2 = "w\<lparr>trace := trace w @ [CacheMatch ?ck, BucketHead fileKey]\<rparr>"
  let ?kv = "handleFileStream_kv ?w2 fileKey contentType (info_size info) CACHE_CONFIGS_image ?ck"
  have k: "\<not> includes_str fileKey ''..''"
    using assms(2) by (simp add: includes_str_iff)
  have t: "handleFileStream_try request w fileKey
           = handleFileStream_object request ?w2 fileKey ?ck info"
    using assms(1) k assms(3) assms(5) _ assms(6,7)
    by (rule try_reaches_object) (simp add: assms(4))
  have o: "handleFileStream_try request w fileKey
           = (case ?kv of
                (Some response, w1) \<Rightarrow> (Inr (Resolved response), w1)
              | (None, w1) \<Rightarrow>
                  (case handleFileStream_r2 w1 fileKey contentType (info_size info) CACHE_CONFIGS_image ?ck of
                     (Inl e, w2) \<Rightarrow> (Inl e, w2)
                   | (Inr response, w2) \<Rightarrow> (Inr (Resolved response), w2)))"
    unfolding t by (rule object_image [OF assms(8,9)])
  obtain kvr w1 where kv: "?kv = (kvr, w1)"
    by (cases ?kv)
  let ?r2 = "handleFileStream_r2 w1 fileKey contentType (info_size info) CACHE_CONFIGS_image ?ck"
  obtain res w3 where r2: "?r2 = (res, w3)"
    by (cases ?r2)
  have el: "shouldCacheInKV CACHE_CONFIGS_image"
    by (simp add: CACHE_CONFIGS_image_def)
  show "info_size info \<le> maxKVSize CACHE_CONFIGS_image \<and> kv_bound w
         \<and> faults w (KVGet (getKVKey fileKey)) = None
         \<and> kv_data w (getKVKey fileKey) = Some kvData \<longrightarrow>
           fst (handleFileStream request w fileKey)
           = Resolved \<lparr>status = 200,
                        headers = buildResponseHeaders contentType (Number (int (length kvData)))
                                    (browserCache CACHE_CONFIGS_image) ''HIT-KV'',
                        body = BytesBody kvData\<rparr>
           \<and> trace (snd (handleFileStream request w fileKey))
             = trace w @ [CacheMatch (getCacheKey fileKey), BucketHead fileKey,
                          KVGet (getKVKey fileKey), CachePut (getCacheKey fileKey)]"
  proof
    assume h: "info_size info \<le> maxKVSize CACHE_CONFIGS_image \<and> kv_bound w
         \<and> faults w (KVGet (getKVKey fileKey)) = None
         \<and> kv_data w (getKVKey fileKey) = Some kvData"
    have "fst ?kv = Some \<lparr>status = 200,
                 headers = buildResponseHeaders contentType (Number (int (length kvData)))
                             (browserCache CACHE_CONFIGS_image) ''HIT-KV'',
                 body = BytesBody kvData\<rparr>"
      and "trace (snd ?kv) = trace ?w2 @ [KVGet (getKVKey fileKey), CachePut ?ck]"
      using kv_hit [of CACHE_CONFIGS_image "info_size info" ?w2 fileKey kvData contentType ?ck] el h
      by simp_all
    then show "fst (handleFileStream request w fileKey)
           = Resolved \<lparr>status = 200,
                        headers = buildResponseHeaders contentType (Number (int (length kvData)))
                                    (browserCache CACHE_CONFIGS_image) ''HIT-KV'',
                        body = BytesBody kvData\<rparr>
           \<and> trace (snd (handleFileStream request w fileKey))
             = trace w @ [CacheMatch (getCacheKey fileKey), BucketHead fileKey,
                          KVGet (getKVKey fileKey), CachePut (getCacheKey fileKey)]"
      using o kv by (simp add: handleFileStream_def)
  qed
  show "\<not> (info_size info \<le> maxKVSize CACHE_CONFIGS_image \<and> kv_bound w
            \<and> faults w (KVGet (getKVKey fileKey)) = None
            \<and> kv_data w (getKVKey fileKey) \<noteq> None)
         \<and> faults w (BucketGet fileKey) = None
         \<and> r2_get w fileKey = Some (R2ObjectBody (Some b)) \<longrightarrow>
           fst (handleFileStream request w fileKey)
           = Resolved \<lparr>status = 200,
                        headers = buildResponseHeaders contentType (Number (info_size info))
                                    (browserCache CACHE_CONFIGS_image) ''MISS'',
                        body = BytesBody b\<rparr>
           \<and> BucketGet fileKey \<in> set (trace (snd (handleFileStream request w fileKey)))"
  proof
    assume h: "\<not> (info_size info \<le> maxKVSize CACHE_CONFIGS_image \<and> kv_bound w
            \<and> faults w (KVGet (getKVKey fileKey)) = None
            \<and> kv_data w (getKVKey fileKey) \<noteq> None)
         \<and> faults w (BucketGet fileKey) = None
         \<and> r2_get w fileKey = Some (R2ObjectBody (Some b))"
    have "fst ?kv = None"
      using kv_not_hit [of CACHE_CONFIGS_image "info_size info" ?w2 fileKey contentType ?ck] h
      by simp
    with kv have none: "kvr = None" by simp
    have w1: "faults w1 = faults w" "r2_get w1 = r2_get w"
      using kv_world [of ?w2 fileKey contentType "info_size info" CACHE_CONFIGS_image ?ck] kv
      by simp_all
    have "fst ?r2 = Inr \<lparr>status = 200,
                headers = buildResponseHeaders contentType (Number (info_size info))
                            (browserCache CACHE_CONFIGS_image) ''MISS'',
                body = BytesBody b\<rparr>"
      using r2_delivers_response [of w1 fileKey b contentType "info_size info" CACHE_CONFIGS_image ?ck] h
      by (simp add: w1)
    with r2 have res: "res = Inr \<lparr>status = 200,
                headers = buildResponseHeaders contentType (Number (info_size info))
                            (browserCache CACHE_CONFIGS_image) ''MISS'',
                body = BytesBody b\<rparr>"
      by simp
    obtain rest where "trace (snd ?r2) = trace w1 @ BucketGet fileKey # rest"
      using r2_trace_starts_with_get [of w1 fileKey contentType "info_size info" CACHE_CONFIGS_image ?ck]
      by blast
    with r2 have tr: "BucketGet fileKey \<in> set (trace w3)"
      by simp
    show "fst (handleFileStream request w fileKey)
           = Resolved \<lparr>status = 200,
                        headers = buildResponseHeaders contentType (Number (info_size info))
                                    (browserCache CACHE_CONFIGS_image) ''MISS'',
                        body = BytesBody b\<rparr>
           \<and> BucketGet fileKey \<in> set (trace (snd (handleFileStream request w fileKey)))"
      using o kv none r2 res tr by (simp add: handleFileStream_def)
  qed
qed

section \<open>The claims\<close>

subsection \<open>C1: a valid explicit range is answered with 206\<close>

text \<open>
  C1. For an object of total size \<open>S\<close> and a range header \<^verbatim>\<open>bytes=A-B\<close> with
  \<open>0 \<le> A \<le> B < S\<close>, \<^const>\<open>handleRangeRequest\<close> answers 206 with
  \<^verbatim>\<open>Content-Range: bytes A-B/S\<close> and \<^verbatim>\<open>Content-Length\<close> \<open>B - A + 1\<close>,
  for every content type. \<open>A\<close> and \<open>B\<close> are written in the header as non-empty digit
  strings \<open>da\<close> and \<open>db\<close> (leading zeros allowed; the decimal form that
  \<^const>\<open>toString\<close> prints is one, by \<open>toString_roundtrip\<close>). The object store is
  taken to deliver the range (a read that fails or returns no body gives a rejection or a
  500), and for \<open>A = 0\<close> the first-chunk cache is taken to hold no entry for the chunk:
  an entry is returned as it is (\<open>handleRangeRequest_first_chunk_hit\<close>), and the
  entries the handler stores are the 206 responses it has built
  (\<open>handleRangeRequest_first_chunk_small\<close>).
\<close>

theorem C1_valid_range_partial_content:
  assumes "list_all is_digit da" and "da \<noteq> []" and "list_all is_digit db" and "db \<noteq> []"
    and "decimal da = A" and "decimal db = B"
    and "0 \<le> A" and "A \<le> B" and "B < S"
    and "faults w (BucketGetRange fileKey (Number A) (Number (B - A + 1))) = None"
    and "r2_get_range w fileKey (Number A) (Number (B - A + 1)) = Some (R2ObjectBody (Some bs))"
    and "A = 0 \<longrightarrow> faults w (CacheMatch (rangeCacheUrl fileKey (Number B))) = None
                     \<and> cache_data w (rangeCacheUrl fileKey (Number B)) = None"
  shows "response_status (fst (handleRangeRequest request w fileKey (''bytes='' @ da @ ''-'' @ db) contentType S cacheControl))
           = Some 206
       \<and> response_header (fst (handleRangeRequest request w fileKey (''bytes='' @ da @ ''-'' @ db) contentType S cacheControl))
            ''Content-Range''
           = Some (''bytes '' @ toString (Number A) @ ''-'' @ toString (Number B) @ ''/'' @ toString (Number S))
       \<and> response_header (fst (handleRangeRequest request w fileKey (''bytes='' @ da @ ''-'' @ db) contentType S cacheControl))
            ''Content-Length''
           = Some (toString (Number (B - A + 1)))"
proof -
  have m: "match_range (''bytes='' @ da @ ''-'' @ db) = Some (da, db)"
    using assms(1,3) by (rule match_range_bytes)
  have b: "handleRangeRequest_bounds (da, db) contentType S = (Number A, Number B)"
    using bounds_explicit [OF assms(1-4)] assms(5,6) by simp
  have "A < S" using assms(8,9) by simp
  from handleRangeRequest_served [OF m b assms(7) this assms(8) assms(12) assms(10) assms(11)]
  show ?thesis
    by (simp add: response_status_def response_header_def
        buildRangeHeaders_Content_Range buildRangeHeaders_Content_Length)
qed

theorem C1_valid_range_partial_content_witness:
  "response_status (fst (handleRangeRequest \<lparr>range_header = Some ''bytes=10-19''\<rparr> demo_world
       ''celebrity/demo/ring.mp3'' ''bytes=10-19'' ''audio/mpeg'' 100 ''public, max-age=31536000, immutable''))
     = Some 206
   \<and> response_header (fst (handleRangeRequest \<lparr>range_header = Some ''bytes=10-19''\<rparr> demo_world
       ''celebrity/demo/ring.mp3'' ''bytes=10-19'' ''audio/mpeg'' 100 ''public, max-age=31536000, immutable''))
       ''Content-Range'' = Some ''bytes 10-19/100''
   \<and> response_header (fst (handleRangeRequest \<lparr>range_header = Some ''bytes=10-19''\<rparr> demo_world
       ''celebrity/demo/ring.mp3'' ''bytes=10-19'' ''audio/mpeg'' 100 ''public, max-age=31536000, immutable''))
       ''Content-Length'' = Some ''10''"
proof -
  have d: "list_all is_digit ''10''" "''10'' \<noteq> []" "list_all is_digit ''19''" "''19'' \<noteq> []"
    "decimal ''10'' = 10" "decimal ''19'' = 19"
    by (simp_all add: is_digit_def decimal_def digit_value_def)
  have r: "(0::int) \<le> 10" "(10::int) \<le> 19" "(19::int) < 100" by simp_all
  have f: "faults demo_world (BucketGetRange ''celebrity/demo/ring.mp3'' (Number 10) (Number (19 - 10 + 1))) = None"
    by (simp add: demo_world_def)
  have s: "r2_get_range demo_world ''celebrity/demo/ring.mp3'' (Number 10) (Number (19 - 10 + 1))
           = Some (R2ObjectBody (Some (replicate 10 0)))"
    by (simp add: demo_world_def demo_objects_def)
  have c: "(10::int) = 0 \<longrightarrow>
           faults demo_world (CacheMatch (rangeCacheUrl ''celebrity/demo/ring.mp3'' (Number 19))) = None
           \<and> cache_data demo_world (rangeCacheUrl ''celebrity/demo/ring.mp3'' (Number 19)) = None"
    by simp
  show ?thesis
    using C1_valid_range_partial_content [OF d r f s c,
        of "\<lparr>range_header = Some ''bytes=10-19''\<rparr>" "''audio/mpeg''" "''public, max-age=31536000, immutable''"]
    by (simp add: digits_of.simps)
qed

subsection \<open>C2: a malformed range header\<close>

text \<open>
  C2, as amended. When the range pattern matches nowhere in the header,
  \<^const>\<open>handleRangeRequest\<close> answers 400 with the text \<^verbatim>\<open>Invalid range\<close> and
  no \<^verbatim>\<open>Content-Range\<close> header (not 416), and calls no collaborator: the world,
  with its trace, is unchanged, so no range read is attempted.
\<close>

theorem C2_malformed_range_400:
  assumes "match_range rangeHeader = None"
  shows "handleRangeRequest request w fileKey rangeHeader contentType totalSize cacheControl
           = (Resolved \<lparr>status = 400, headers = Map.empty, body = TextBody ''Invalid range''\<rparr>, w)"
  using assms by (simp add: handleRangeRequest_def)

theorem C2_malformed_range_400_witness:
  "match_range ''bytes 0-5'' = None
   \<and> handleRangeRequest \<lparr>range_header = Some ''bytes 0-5''\<rparr> demo_world
       ''celebrity/demo/clip.mp4'' ''bytes 0-5'' ''video/mp4'' 52428800 ''public, max-age=31536000, immutable''
     = (Resolved \<lparr>status = 400, headers = Map.empty, body = TextBody ''Invalid range''\<rparr>, demo_world)"
proof -
  have m: "match_range ''bytes 0-5'' = None"
    by (simp add: regex_at_def startsWith_def)
  show ?thesis
    using m C2_malformed_range_400 [OF m] by simp
qed

theorem C2_malformed_range_not_416:
  "match_range ''items=0-5'' = None
   \<and> response_status (fst (handleRangeRequest \<lparr>range_header = Some ''items=0-5''\<rparr> demo_world
        ''celebrity/demo/clip.mp4'' ''items=0-5'' ''video/mp4'' 52428800 ''public, max-age=31536000, immutable''))
      = Some 400
   \<and> response_status (fst (handleRangeRequest \<lparr>range_header = Some ''items=0-5''\<rparr> demo_world
        ''celebrity/demo/clip.mp4'' ''items=0-5'' ''video/mp4'' 52428800 ''public, max-age=31536000, immutable''))
      \<noteq> Some 416
   \<and> response_header (fst (handleRangeRequest \<lparr>range_header = Some ''items=0-5''\<rparr> demo_world
        ''celebrity/demo/clip.mp4'' ''items=0-5'' ''video/mp4'' 52428800 ''public, max-age=31536000, immutable''))
        ''Content-Range'' = None"
  by (simp add: handleRangeRequest_def regex_at_def startsWith_def response_status_def response_header_def)

subsection \<open>C3: an explicit end beyond the object\<close>

text \<open>
  C3 states that a range whose explicit end exceeds \<open>totalSize - 1\<close> is rejected
  with 416. The validation compares only \<open>start\<close> with the size: for the 100-byte
  audio object and \<^verbatim>\<open>bytes=0-999\<close> the handler answers 206 with
  \<^verbatim>\<open>Content-Range: bytes 0-999/100\<close> and \<^verbatim>\<open>Content-Length: 1000\<close>, although
  the open-ended and the suffix form both keep \<open>end \<le> totalSize - 1\<close>.
\<close>

theorem C3_end_beyond_size_is_served:
  "response_status (fst (handleFileStream \<lparr>range_header = Some ''bytes=0-999''\<rparr> demo_world ''celebrity/demo/ring.mp3''))
     = Some 206
   \<and> response_header (fst (handleFileStream \<lparr>range_header = Some ''bytes=0-999''\<rparr> demo_world ''celebrity/demo/ring.mp3''))
       ''Content-Range'' = Some ''bytes 0-999/100''
   \<and> response_header (fst (handleFileStream \<lparr>range_header = Some ''bytes=0-999''\<rparr> demo_world ''celebrity/demo/ring.mp3''))
       ''Content-Length'' = Some ''1000''
   \<and> trace (snd (handleFileStream \<lparr>range_header = Some ''bytes=0-999''\<rparr> demo_world ''celebrity/demo/ring.mp3''))
       = [CacheMatch ''https://cache.local/celebrity/celebrity/demo/ring.mp3'',
          BucketHead ''celebrity/demo/ring.mp3'',
          CacheMatch ''https://cache.local/range/celebrity/demo/ring.mp3?chunk=0-999'',
          BucketGetRange ''celebrity/demo/ring.mp3'' (Number 0) (Number 1000),
          CachePut ''https://cache.local/range/celebrity/demo/ring.mp3?chunk=0-999'']"
  by (simp add: eval_defs)

subsection \<open>C4: the first chunk of the 50 MiB video\<close>

text \<open>
  C4, as amended. For a video of 52428800 bytes and \<^verbatim>\<open>Range: bytes=0-2097151\<close>, with
  no entry for the chunk in the first-chunk cache and a store that delivers the range, the
  request is answered with 206, \<^verbatim>\<open>Content-Range: bytes 0-2097151/52428800\<close> and
  \<^verbatim>\<open>Content-Length: 2097152\<close>. The chunk is longer than the 512 KiB up to which
  a first chunk is cached, so it is not stored: the edge cache is unchanged, and the
  repeated request looks the chunk up, misses, reads the range from the object store
  again and gives the same response.
\<close>

theorem C4_large_first_chunk_not_cached:
  assumes "faults w (CacheMatch (rangeCacheUrl fileKey (Number 2097151))) = None"
    and "cache_data w (rangeCacheUrl fileKey (Number 2097151)) = None"
    and "faults w (BucketGetRange fileKey (Number 0) (Number 2097152)) = None"
    and "r2_get_range w fileKey (Number 0) (Number 2097152) = Some (R2ObjectBody (Some bs))"
  shows "(let first = handleRangeRequest request w fileKey ''bytes=0-2097151'' contentType 52428800 cacheControl;
              second = handleRangeRequest request (snd first) fileKey ''bytes=0-2097151'' contentType 52428800 cacheControl
          in response_status (fst first) = Some 206
           \<and> response_header (fst first) ''Content-Range'' = Some ''bytes 0-2097151/52428800''
           \<and> response_header (fst first) ''Content-Length'' = Some ''2097152''
           \<and> cache_data (snd first) = cache_data w
           \<and> trace (snd first)
               = trace w @ [CacheMatch (rangeCacheUrl fileKey (Number 2097151)),
                            BucketGetRange fileKey (Number 0) (Number 2097152)]
           \<and> fst second = fst first
           \<and> trace (snd second)
               = trace w @ [CacheMatch (rangeCacheUrl fileKey (Number 2097151)),
                            BucketGetRange fileKey (Number 0) (Number 2097152),
                            CacheMatch (rangeCacheUrl fileKey (Number 2097151)),
                            BucketGetRange fileKey (Number 0) (Number 2097152)])"
proof -
  let ?url = "rangeCacheUrl fileKey (Number 2097151)"
  let ?w1 = "w\<lparr>trace := trace w @ [CacheMatch ?url, BucketGetRange fileKey (Number 0) (Number 2097152)]\<rparr>"
  let ?r = "\<lparr>status = 206,
            headers = buildRangeHeaders contentType (Number 0) (Number 2097151) (Number 52428800) cacheControl,
            body = BytesBody bs\<rparr>"
  have first: "handleRangeRequest request w fileKey ''bytes=0-2097151'' contentType 52428800 cacheControl
               = (Resolved ?r, ?w1)"
    using handleRangeRequest_first_chunk_large [OF match_range_scenario bounds_scenario [of contentType],
        where w = w and fileKey = fileKey and bs = bs and request = request
          and cacheControl = cacheControl]
      assms by simp
  have second: "handleRangeRequest request ?w1 fileKey ''bytes=0-2097151'' contentType 52428800 cacheControl
               = (Resolved ?r, ?w1\<lparr>trace := trace ?w1 @ [CacheMatch ?url, BucketGetRange fileKey (Number 0) (Number 2097152)]\<rparr>)"
    using handleRangeRequest_first_chunk_large [OF match_range_scenario bounds_scenario [of contentType],
        where w = ?w1 and fileKey = fileKey and bs = bs and request = request
          and cacheControl = cacheControl]
      assms by simp
  show ?thesis
    by (simp add: Let_def first second response_status_def response_header_def
        buildRangeHeaders_Content_Range buildRangeHeaders_Content_Length digits_of.simps)
qed

theorem C4_large_first_chunk_not_cached_witness:
  "response_status (fst (handleRangeRequest \<lparr>range_header = Some ''bytes=0-2097151''\<rparr> demo_world
       ''celebrity/demo/clip.mp4'' ''bytes=0-2097151'' ''video/mp4'' 52428800 ''public, max-age=31536000, immutable''))
     = Some 206
   \<and> cache_data (snd (handleRangeRequest \<lparr>range_header = Some ''bytes=0-2097151''\<rparr> demo_world
       ''celebrity/demo/clip.mp4'' ''bytes=0-2097151'' ''video/mp4'' 52428800 ''public, max-age=31536000, immutable''))
     = Map.empty"
proof -
  have h: "faults demo_world (CacheMatch (rangeCacheUrl ''celebrity/demo/clip.mp4'' (Number 2097151))) = None"
    "cache_data demo_world (rangeCacheUrl ''celebrity/demo/clip.mp4'' (Number 2097151)) = None"
    "faults demo_world (BucketGetRange ''celebrity/demo/clip.mp4'' (Number 0) (Number 2097152)) = None"
    "r2_get_range demo_world ''celebrity/demo/clip.mp4'' (Number 0) (Number 2097152)
       = Some (R2ObjectBody (Some (replicate 2097152 0)))"
    by (simp_all add: demo_world_def demo_objects_def)
  have c: "cache_data demo_world = Map.empty"
    by (simp add: demo_world_def)
  show ?thesis
    using C4_large_first_chunk_not_cached [OF h,
        where request = "\<lparr>range_header = Some ''bytes=0-2097151''\<rparr>" and contentType = "''video/mp4''"
          and cacheControl = "''public, max-age=31536000, immutable''"]
    by (simp add: Let_def c)
qed

theorem C4_repeat_reads_store_again:
  "response_status (fst (handleFileStream \<lparr>range_header = Some ''bytes=0-2097151''\<rparr> demo_world ''celebrity/demo/clip.mp4''))
     = Some 206
   \<and> cache_data (snd (handleFileStream \<lparr>range_header = Some ''bytes=0-2097151''\<rparr> demo_world ''celebrity/demo/clip.mp4''))
       ''https://cache.local/range/celebrity/demo/clip.mp4?chunk=0-2097151'' = None
   \<and> trace (snd (handleFileStream \<lparr>range_header = Some ''bytes=0-2097151''\<rparr>
                 (snd (handleFileStream \<lparr>range_header = Some ''bytes=0-2097151''\<rparr> demo_world ''celebrity/demo/clip.mp4''))
                 ''celebrity/demo/clip.mp4''))
     = [CacheMatch ''https://cache.local/celebrity/celebrity/demo/clip.mp4'',
        BucketHead ''celebrity/demo/clip.mp4'',
        CacheMatch ''https://cache.local/range/celebrity/demo/clip.mp4?chunk=0-2097151'',
        BucketGetRange ''celebrity/demo/clip.mp4'' (Number 0) (Number 2097152),
        CacheMatch ''https://cache.local/celebrity/celebrity/demo/clip.mp4'',
        BucketHead ''celebrity/demo/clip.mp4'',
        CacheMatch ''https://cache.local/range/celebrity/demo/clip.mp4?chunk=0-2097151'',
        BucketGetRange ''celebrity/demo/clip.mp4'' (Number 0) (Number 2097152)]"
  by (simp add: eval_defs)

subsection \<open>C5: suffix ranges\<close>

text \<open>
  C5. For a suffix header \<^verbatim>\<open>bytes=-N\<close> (\<open>N\<close> a non-empty digit string \<open>ds\<close>) on
  an object of size \<open>S\<close>, the pattern yields an empty first group and \<open>N\<close> as the
  second, and the range computed is \<open>[max (S - N) 0, S - 1]\<close>. When \<open>0 < N < S\<close> the
  handler reads exactly that range from the store: offset \<open>S - N\<close>, length \<open>N\<close>.
\<close>

theorem C5_suffix_range:
  assumes "list_all is_digit ds" and "ds \<noteq> []"
  shows "match_range (''bytes=-'' @ ds) = Some ([], ds)
       \<and> handleRangeRequest_bounds ([], ds) contentType S
           = (Number (max (S - decimal ds) 0), Number (S - 1))
       \<and> (0 < decimal ds \<and> decimal ds < S \<longrightarrow>
            trace (snd (handleRangeRequest request w fileKey (''bytes=-'' @ ds) contentType S cacheControl))
            = trace w @ [BucketGetRange fileKey (Number (S - decimal ds)) (Number (decimal ds))])"
proof (intro conjI impI)
  show m: "match_range (''bytes=-'' @ ds) = Some ([], ds)"
    using assms(1) by (rule match_range_suffix)
  show b: "handleRangeRequest_bounds ([], ds) contentType S
           = (Number (max (S - decimal ds) 0), Number (S - 1))"
    using assms by (rule bounds_suffix)
  assume n: "0 < decimal ds \<and> decimal ds < S"
  then have b': "handleRangeRequest_bounds ([], ds) contentType S
                 = (Number (S - decimal ds), Number (S - 1))"
    using b by (simp add: max_def)
  show "trace (snd (handleRangeRequest request w fileKey (''bytes=-'' @ ds) contentType S cacheControl))
        = trace w @ [BucketGetRange fileKey (Number (S - decimal ds)) (Number (decimal ds))]"
    using handleRangeRequest_later_chunk_trace [OF m b', of request w fileKey cacheControl] n
    by simp
qed

theorem C5_suffix_range_witness:
  "match_range ''bytes=-1024'' = Some ([], ''1024'')
   \<and> handleRangeRequest_bounds ([], ''1024'') ''video/mp4'' 52428800 = (Number 52427776, Number 52428799)
   \<and> trace (snd (handleRangeRequest \<lparr>range_header = Some ''bytes=-1024''\<rparr> demo_world
        ''celebrity/demo/clip.mp4'' ''bytes=-1024'' ''video/mp4'' 52428800 ''public, max-age=31536000, immutable''))
      = [BucketGetRange ''celebrity/demo/clip.mp4'' (Number 52427776) (Number 1024)]"
proof -
  have d: "list_all is_digit ''1024''" "''1024'' \<noteq> []"
    by (simp_all add: is_digit_def)
  have v: "decimal ''1024'' = 1024"
    by (simp add: decimal_def digit_value_def)
  have t: "trace demo_world = []"
    by (simp add: demo_world_def)
  show ?thesis
    using C5_suffix_range [OF d, of "''video/mp4''" 52428800 "\<lparr>range_header = Some ''bytes=-1024''\<rparr>"
        demo_world "''celebrity/demo/clip.mp4''" "''public, max-age=31536000, immutable''"]
    by (simp add: v t)
qed

subsection \<open>C6: open-ended ranges\<close>

text \<open>
  C6. For an open-ended header \<^verbatim>\<open>bytes=N-\<close> (\<open>N\<close> a non-empty digit string
  \<open>ds\<close>) with \<open>N < totalSize\<close>, the range computed starts at \<open>N\<close> and ends at
  \<open>min (N + chunkSize - 1) (totalSize - 1)\<close>, where the chunk size is 2 MiB for
  \<^verbatim>\<open>video/\<close>, 512 KiB for \<^verbatim>\<open>audio/\<close> and 1 MiB otherwise
  (\<^const>\<open>spec_chunkSize\<close>). When \<open>0 < N\<close> the handler reads exactly that range
  from the store.
\<close>

theorem C6_open_ended_range:
  assumes "list_all is_digit ds" and "ds \<noteq> []" and "decimal ds < S"
  shows "match_range (''bytes='' @ ds @ ''-'') = Some (ds, [])
       \<and> handleRangeRequest_bounds (ds, []) contentType S
           = (Number (decimal ds), Number (min (decimal ds + spec_chunkSize contentType - 1) (S - 1)))
       \<and> (0 < decimal ds \<longrightarrow>
            trace (snd (handleRangeRequest request w fileKey (''bytes='' @ ds @ ''-'') contentType S cacheControl))
            = trace w @ [BucketGetRange fileKey (Number (decimal ds))
                           (Number (min (decimal ds + spec_chunkSize contentType - 1) (S - 1) - decimal ds + 1))])"
proof (intro conjI impI)
  show m: "match_range (''bytes='' @ ds @ ''-'') = Some (ds, [])"
    using assms(1) by (rule match_range_open)
  show b: "handleRangeRequest_bounds (ds, []) contentType S
           = (Number (decimal ds), Number (min (decimal ds + spec_chunkSize contentType - 1) (S - 1)))"
    using assms(1,2) by (rule bounds_open)
  assume n: "0 < decimal ds"
  have c: "0 < spec_chunkSize contentType"
    by (simp add: spec_chunkSize_def)
  have "decimal ds \<le> min (decimal ds + spec_chunkSize contentType - 1) (S - 1)"
    using c assms(3) by simp
  then show "trace (snd (handleRangeRequest request w fileKey (''bytes='' @ ds @ ''-'') contentType S cacheControl))
        = trace w @ [BucketGetRange fileKey (Number (decimal ds))
                       (Number (min (decimal ds + spec_chunkSize contentType - 1) (S - 1) - decimal ds + 1))]"
    using handleRangeRequest_later_chunk_trace [OF m b n assms(3)] by simp
qed

theorem C6_open_ended_range_witness:
  "match_range ''bytes=1000-'' = Some (''1000'', [])
   \<and> handleRangeRequest_bounds (''1000'', []) ''video/mp4'' 52428800 = (Number 1000, Number 2098151)
   \<and> handleRangeRequest_bounds (''1000'', []) ''audio/mpeg'' 52428800 = (Number 1000, Number 525287)
   \<and> handleRangeRequest_bounds (''1000'', []) ''image/webp'' 52428800 = (Number 1000, Number 1049575)
   \<and> trace (snd (handleRangeRequest \<lparr>range_header = Some ''bytes=1000-''\<rparr> demo_world
        ''celebrity/demo/clip.mp4'' ''bytes=1000-'' ''video/mp4'' 52428800 ''public, max-age=31536000, immutable''))
      = [BucketGetRange ''celebrity/demo/clip.mp4'' (Number 1000) (Number 2097152)]"
proof -
  have d: "list_all is_digit ''1000''" "''1000'' \<noteq> []"
    by (simp_all add: is_digit_def)
  have v: "decimal ''1000'' = 1000"
    by (simp add: decimal_def digit_value_def)
  have l: "decimal ''1000'' < 52428800"
    by (simp add: v)
  have t: "trace demo_world = []"
    by (simp add: demo_world_def)
  show ?thesis
    using C6_open_ended_range [OF d l, of "''video/mp4''" "\<lparr>range_header = Some ''bytes=1000-''\<rparr>"
        demo_world "''celebrity/demo/clip.mp4''" "''public, max-age=31536000, immutable''"]
      C6_open_ended_range [OF d l, of "''audio/mpeg''"]
      C6_open_ended_range [OF d l, of "''image/webp''"]
    by (simp add: v t spec_chunkSize_def startsWith_def)
qed

subsection \<open>C7: unsafe file keys\<close>

text \<open>
  C7. For a file key that is empty or contains \<^verbatim>\<open>..\<close>, \<^const>\<open>handleFileStream\<close>
  answers 400 and calls no collaborator: the world, with its trace, is unchanged, so the
  object store is never reached.
\<close>

theorem C7_invalid_key_rejected:
  assumes "fileKey = [] \<or> (\<exists>a b. fileKey = a @ ''..'' @ b)"
  shows "handleFileStream request w fileKey
           = (Resolved (jsonResponse [(''error'', ''Invalid file key'')] 400), w)
       \<and> response_status (fst (handleFileStream request w fileKey)) = Some 400
       \<and> trace (snd (handleFileStream request w fileKey)) = trace w"
proof -
  from assms have "fileKey = [] \<or> includes_str fileKey ''..''"
    by (simp add: includes_str_iff)
  then have "handleFileStream_try request w fileKey
               = (Inr (Resolved (jsonResponse [(''error'', ''Invalid file key'')] 400)), w)"
    by (simp add: handleFileStream_try_def)
  then show ?thesis
    by (simp add: handleFileStream_def response_status_def jsonResponse_def)
qed

theorem C7_invalid_key_rejected_witness:
  "response_status (fst (handleFileStream \<lparr>range_header = None\<rparr> demo_world ''celebrity/../secret.png'')) = Some 400
   \<and> snd (handleFileStream \<lparr>range_header = None\<rparr> demo_world ''celebrity/../secret.png'') = demo_world
   \<and> response_status (fst (handleFileStream \<lparr>range_header = None\<rparr> demo_world [])) = Some 400
   \<and> snd (handleFileStream \<lparr>range_header = None\<rparr> demo_world []) = demo_world"
proof -
  have "''celebrity/../secret.png'' = ''celebrity/'' @ ''..'' @ ''/secret.png''"
    by simp
  then have k: "''celebrity/../secret.png'' = [] \<or> (\<exists>a b. ''celebrity/../secret.png'' = a @ ''..'' @ b)"
    by blast
  have e: "([]::string) = [] \<or> (\<exists>a b. ([]::string) = a @ ''..'' @ b)"
    by simp
  show ?thesis
    using C7_invalid_key_rejected [OF k, of "\<lparr>range_header = None\<rparr>" demo_world]
      C7_invalid_key_rejected [OF e, of "\<lparr>range_header = None\<rparr>" demo_world]
    by (simp add: response_status_def jsonResponse_def)
qed

subsection \<open>C8: a failing read of the key-value tier\<close>

text \<open>
  C8. For a request that reaches the key-value tier (a valid key, a bound bucket and a
  bound tier, no edge-cache hit, metadata of an image, or of an audio object requested
  without a range, whose size is within the ceiling of its class), when the read of the
  tier throws, \<^const>\<open>handleFileStream\<close> gives the same response and makes the same
  calls as in the world where that read finds nothing (\<^const>\<open>kv_read_misses\<close>), and
  the call after the failed read is the read of the object from the store.
\<close>

theorem C8_kv_read_failure_is_a_miss:
  assumes "fileKey \<noteq> []" and "\<not> (\<exists>a b. fileKey = a @ ''..'' @ b)" and "bucket_bound w"
    and "faults w (CacheMatch (getCacheKey fileKey)) = None"
    and "truthy (range_header request) \<or> cache_data w (getCacheKey fileKey) = None"
    and "faults w (BucketHead fileKey) = None"
    and "r2_head w fileKey = Some info" and "info_contentType info = Some contentType"
    and "startsWith contentType ''image/''
         \<or> (startsWith contentType ''audio/'' \<and> \<not> truthy (range_header request))"
    and "info_size info \<le> maxKVSize (getCacheConfig contentType)" and "kv_bound w"
    and "faults w (KVGet (getKVKey fileKey)) = Some e"
  shows "fst (handleFileStream request w fileKey)
           = fst (handleFileStream request (kv_read_misses w fileKey) fileKey)
       \<and> trace (snd (handleFileStream request w fileKey))
           = trace (snd (handleFileStream request (kv_read_misses w fileKey) fileKey))
       \<and> (\<exists>rest. trace (snd (handleFileStream request w fileKey))
                  = trace w @ [CacheMatch (getCacheKey fileKey), BucketHead fileKey,
                               KVGet (getKVKey fileKey), BucketGet fileKey] @ rest)"
proof -
  let ?w2 = "w\<lparr>trace := trace w @ [CacheMatch (getCacheKey fileKey), BucketHead fileKey]\<rparr>"
  have k: "\<not> includes_str fileKey ''..''"
    using assms(2) by (simp add: includes_str_iff)
  have t: "handleFileStream_try request w fileKey
           = handleFileStream_object request ?w2 fileKey (getCacheKey fileKey) info"
    using assms(1) k assms(3-7) by (rule try_reaches_object)
  obtain rest where "trace (snd (handleFileStream_object request ?w2 fileKey (getCacheKey fileKey) info))
                     = trace ?w2 @ [KVGet (getKVKey fileKey), BucketGet fileKey] @ rest"
    using object_after_kv_throw [OF assms(8,9,10), of ?w2 fileKey e "getCacheKey fileKey"] assms(11,12)
    by auto
  then have "trace (snd (handleFileStream request w fileKey))
             = trace w @ [CacheMatch (getCacheKey fileKey), BucketHead fileKey,
                          KVGet (getKVKey fileKey), BucketGet fileKey] @ rest"
    by (simp add: handleFileStream_snd t)
  then show ?thesis
    using kv_read_failure_same_response [OF assms(12), of request] by auto
qed

theorem C8_kv_read_failure_is_a_miss_witness:
  "fst (handleFileStream \<lparr>range_header = None\<rparr> kv_down_world ''celebrity/demo/photo.webp'')
     = fst (handleFileStream \<lparr>range_header = None\<rparr>
              (kv_read_misses kv_down_world ''celebrity/demo/photo.webp'') ''celebrity/demo/photo.webp'')
   \<and> response_status (fst (handleFileStream \<lparr>range_header = None\<rparr> kv_down_world ''celebrity/demo/photo.webp''))
       = Some 200
   \<and> response_header (fst (handleFileStream \<lparr>range_header = None\<rparr> kv_down_world ''celebrity/demo/photo.webp''))
       ''X-Cache'' = Some ''MISS''
   \<and> trace (snd (handleFileStream \<lparr>range_header = None\<rparr> kv_down_world ''celebrity/demo/photo.webp''))
       = [CacheMatch ''https://cache.local/celebrity/celebrity/demo/photo.webp'',
          BucketHead ''celebrity/demo/photo.webp'',
          KVGet ''celebrity:media:celebrity/demo/photo.webp'',
          BucketGet ''celebrity/demo/photo.webp'',
          CachePut ''https://cache.local/celebrity/celebrity/demo/photo.webp'',
          KVPut ''celebrity:media:celebrity/demo/photo.webp'' 31536000]"
proof -
  let ?k = "''celebrity/demo/photo.webp''"
  let ?info = "\<lparr>info_contentType = Some ''image/webp'', info_size = 1000\<rparr>"
  have h: "bucket_bound kv_down_world"
    "faults kv_down_world (CacheMatch (getCacheKey ?k)) = None"
    "truthy (range_header \<lparr>range_header = None\<rparr>) \<or> cache_data kv_down_world (getCacheKey ?k) = None"
    "faults kv_down_world (BucketHead ?k) = None"
    "r2_head kv_down_world ?k = Some ?info"
    "info_contentType ?info = Some ''image/webp''"
    "startsWith ''image/webp'' ''image/''
     \<or> (startsWith ''image/webp'' ''audio/'' \<and> \<not> truthy (range_header \<lparr>range_header = None\<rparr>))"
    "info_size ?info \<le> maxKVSize (getCacheConfig ''image/webp'')"
    "kv_bound kv_down_world"
    "faults kv_down_world (KVGet (getKVKey ?k)) = Some (Error ''KV GET failed: 500'')"
    by (simp_all add: kv_down_world_def demo_world_def demo_objects_def startsWith_def
        getCacheConfig_def CACHE_CONFIGS_image_def)
  have same: "fst (handleFileStream \<lparr>range_header = None\<rparr> kv_down_world ?k)
     = fst (handleFileStream \<lparr>range_header = None\<rparr> (kv_read_misses kv_down_world ?k) ?k)"
    using C8_kv_read_failure_is_a_miss [OF photo_key_valid h] by simp
  have tr: "trace (snd (handleFileStream \<lparr>range_header = None\<rparr> kv_down_world ?k))
       = [CacheMatch ''https://cache.local/celebrity/celebrity/demo/photo.webp'',
          BucketHead ''celebrity/demo/photo.webp'',
          KVGet ''celebrity:media:celebrity/demo/photo.webp'',
          BucketGet ''celebrity/demo/photo.webp'',
          CachePut ''https://cache.local/celebrity/celebrity/demo/photo.webp'',
          KVPut ''celebrity:media:celebrity/demo/photo.webp'' 31536000]"
    by (simp add: eval_defs kv_down_world_def)
  have st: "response_status (fst (handleFileStream \<lparr>range_header = None\<rparr> kv_down_world ?k)) = Some 200"
    "response_header (fst (handleFileStream \<lparr>range_header = None\<rparr> kv_down_world ?k)) ''X-Cache'' = Some ''MISS''"
    by (simp_all add: eval_defs kv_down_world_def)
  show ?thesis
    using same tr st by blast
qed

subsection \<open>C9: a range header on an image\<close>

text \<open>
  C9. For a request with a (non-empty) range header whose object is an image,
  \<^const>\<open>handleFileStream\<close> never answers 206, does not return the edge-cache entry
  (no \<^verbatim>\<open>X-Cache: HIT-WORKERS\<close>), and makes no call of the range responder (no range
  read, no access to the first-chunk cache). Its answer is the whole object with status
  200 and no \<^verbatim>\<open>Content-Range\<close>: when the key-value tier is consulted and holds
  the object, the response is built from these bytes \<open>kvData\<close>, with their length and
  \<^verbatim>\<open>X-Cache: HIT-KV\<close>, after the calls \<^verbatim>\<open>match\<close>, \<^verbatim>\<open>head\<close>,
  key-value \<^verbatim>\<open>get\<close> and the \<^verbatim>\<open>put\<close> into the edge cache; otherwise,
  when the store delivers the object, the response is built from the body \<open>b\<close> that
  \<^verbatim>\<open>bucket.get\<close> returned, with the object's size and \<^verbatim>\<open>X-Cache: MISS\<close>,
  and the store has been read.
\<close>

theorem C9_image_range_header_ignored:
  assumes "fileKey \<noteq> []" and "\<not> (\<exists>a b. fileKey = a @ ''..'' @ b)" and "bucket_bound w"
    and "truthy (range_header request)"
    and "faults w (CacheMatch (getCacheKey fileKey)) = None"
    and "faults w (BucketHead fileKey) = None"
    and "r2_head w fileKey = Some info" and "info_contentType info = Some contentType"
    and "startsWith contentType ''image/''"
  shows "response_status (fst (handleFileStream request w fileKey)) \<noteq> Some 206
       \<and> response_header (fst (handleFileStream request w fileKey)) ''X-Cache'' \<noteq> Some ''HIT-WORKERS''
       \<and> filter range_responder_call (trace (snd (handleFileStream request w fileKey)))
           = filter range_responder_call (trace w)
       \<and> (faults w (BucketGet fileKey) = None \<and> r2_get w fileKey = Some (R2ObjectBody (Some b)) \<longrightarrow>
            response_status (fst (handleFileStream request w fileKey)) = Some 200
            \<and> response_header (fst (handleFileStream request w fileKey)) ''Content-Range'' = None)
       \<and> (info_size info \<le> maxKVSize CACHE_CONFIGS_image \<and> kv_bound w
            \<and> faults w (KVGet (getKVKey fileKey)) = None
            \<and> kv_data w (getKVKey fileKey) = Some kvData \<longrightarrow>
              fst (handleFileStream request w fileKey)
              = Resolved \<lparr>status = 200,
                           headers = buildResponseHeaders contentType (Number (int (length kvData)))
                                       (browserCache CACHE_CONFIGS_image) ''HIT-KV'',
                           body = BytesBody kvData\<rparr>
              \<and> trace (snd (handleFileStream request w fileKey))
                = trace w @ [CacheMatch (getCacheKey fileKey), BucketHead fileKey,
                             KVGet (getKVKey fileKey), CachePut (getCacheKey fileKey)])
       \<and> (\<not> (info_size info \<le> maxKVSize CACHE_CONFIGS_image \<and> kv_bound w
               \<and> faults w (KVGet (getKVKey fileKey)) = None
               \<and> kv_data w (getKVKey fileKey) \<noteq> None)
            \<and> faults w (BucketGet fileKey) = None
            \<and> r2_get w fileKey = Some (R2ObjectBody (Some b)) \<longrightarrow>
              fst (handleFileStream request w fileKey)
              = Resolved \<lparr>status = 200,
                           headers = buildResponseHeaders contentType (Number (info_size info))
                                       (browserCache CACHE_CONFIGS_image) ''MISS'',
                           body = BytesBody b\<rparr>
              \<and> BucketGet fileKey \<in> set (trace (snd (handleFileStream request w fileKey))))"
  using image_range_status [OF assms, of b]
    image_range_response(1) [OF assms, of kvData]
    image_range_response(2) [OF assms, of b]
  by blast

theorem C9_image_range_header_ignored_witness:
  "fst (handleFileStream \<lparr>range_header = Some ''bytes=0-99''\<rparr> warm_world ''celebrity/demo/photo.webp'')
     = Resolved \<lparr>status = 200,
                  headers = buildResponseHeaders ''image/webp'' (Number 1000)
                              ''public, max-age=31536000, immutable'' ''MISS'',
                  body = BytesBody (replicate 1000 0)\<rparr>
   \<and> BucketGet ''celebrity/demo/photo.webp''
       \<in> set (trace (snd (handleFileStream \<lparr>range_header = Some ''bytes=0-99''\<rparr> warm_world ''celebrity/demo/photo.webp'')))
   \<and> response_status (fst (handleFileStream \<lparr>range_header = Some ''bytes=0-99''\<rparr> warm_world ''celebrity/demo/photo.webp''))
     = Some 200
   \<and> response_status (fst (handleFileStream \<lparr>range_header = Some ''bytes=0-99''\<rparr> warm_world ''celebrity/demo/photo.webp''))
     \<noteq> Some 206
   \<and> response_header (fst (handleFileStream \<lparr>range_header = Some ''bytes=0-99''\<rparr> warm_world ''celebrity/demo/photo.webp''))
       ''X-Cache'' \<noteq> Some ''HIT-WORKERS''
   \<and> response_header (fst (handleFileStream \<lparr>range_header = Some ''bytes=0-99''\<rparr> warm_world ''celebrity/demo/photo.webp''))
       ''Content-Range'' = None
   \<and> filter range_responder_call
        (trace (snd (handleFileStream \<lparr>range_header = Some ''bytes=0-99''\<rparr> warm_world ''celebrity/demo/photo.webp'')))
       = []
   \<and> fst (handleFileStream \<lparr>range_header = Some ''bytes=0-99''\<rparr> kv_warm_world ''celebrity/demo/photo.webp'')
     = Resolved \<lparr>status = 200,
                  headers = buildResponseHeaders ''image/webp'' (Number 1000)
                              ''public, max-age=31536000, immutable'' ''HIT-KV'',
                  body = BytesBody (replicate 1000 0)\<rparr>
   \<and> trace (snd (handleFileStream \<lparr>range_header = Some ''bytes=0-99''\<rparr> kv_warm_world ''celebrity/demo/photo.webp''))
     = [CacheMatch ''https://cache.local/celebrity/celebrity/demo/photo.webp'',
        BucketHead ''celebrity/demo/photo.webp'',
        KVGet ''celebrity:media:celebrity/demo/photo.webp'',
        CachePut ''https://cache.local/celebrity/celebrity/demo/photo.webp'']"
proof -
  let ?k = "''celebrity/demo/photo.webp''"
  let ?rq = "\<lparr>range_header = Some ''bytes=0-99''\<rparr>"
  let ?info = "\<lparr>info_contentType = Some ''image/webp'', info_size = 1000\<rparr>"
  have h: "bucket_bound warm_world"
    "truthy (range_header ?rq)"
    "faults warm_world (CacheMatch (getCacheKey ?k)) = None"
    "faults warm_world (BucketHead ?k) = None"
    "r2_head warm_world ?k = Some ?info"
    "info_contentType ?info = Some ''image/webp''"
    "startsWith ''image/webp'' ''image/''"
    by (simp_all add: warm_world_def demo_world_def demo_objects_def startsWith_def truthy_def)
  have g: "bucket_bound kv_warm_world"
    "truthy (range_header ?rq)"
    "faults kv_warm_world (CacheMatch (getCacheKey ?k)) = None"
    "faults kv_warm_world (BucketHead ?k) = None"
    "r2_head kv_warm_world ?k = Some ?info"
    "info_contentType ?info = Some ''image/webp''"
    "startsWith ''image/webp'' ''image/''"
    by (simp_all add: kv_warm_world_def warm_world_def demo_world_def demo_objects_def
        startsWith_def truthy_def)
  have d: "faults warm_world (BucketGet ?k) = None"
    "r2_get warm_world ?k = Some (R2ObjectBody (Some (replicate 1000 0)))"
    "kv_data warm_world (getKVKey ?k) = None"
    "trace warm_world = []"
    by (simp_all add: warm_world_def demo_world_def demo_objects_def)
  have e: "info_size ?info \<le> maxKVSize CACHE_CONFIGS_image"
    "kv_bound kv_warm_world"
    "faults kv_warm_world (KVGet (getKVKey ?k)) = None"
    "kv_data kv_warm_world (getKVKey ?k) = Some (replicate 1000 0)"
    "trace kv_warm_world = []"
    "getKVKey ?k = ''celebrity:media:celebrity/demo/photo.webp''"
    "getCacheKey ?k = ''https://cache.local/celebrity/celebrity/demo/photo.webp''"
    "browserCache CACHE_CONFIGS_image = ''public, max-age=31536000, immutable''"
    by (simp_all add: kv_warm_world_def warm_world_def demo_world_def demo_objects_def
        CACHE_CONFIGS_image_def getKVKey_def KV_NAMESPACE_def getCacheKey_def)
  note store = C9_image_range_header_ignored [OF photo_key_valid h,
      where b = "replicate 1000 0" and kvData = "replicate 1000 0"]
  note tier = C9_image_range_header_ignored [OF photo_key_valid g,
      where b = "replicate 1000 0" and kvData = "replicate 1000 0"]
  have s: "info_size ?info \<le> maxKVSize CACHE_CONFIGS_image \<and> kv_bound warm_world
           \<and> faults warm_world (KVGet (getKVKey ?k)) = None
           \<and> kv_data warm_world (getKVKey ?k) \<noteq> None \<Longrightarrow> False"
    using d(3) by simp
  from store d(1,2) s
  have a: "fst (handleFileStream ?rq warm_world ?k)
           = Resolved \<lparr>status = 200,
                        headers = buildResponseHeaders ''image/webp'' (Number (info_size ?info))
                                    (browserCache CACHE_CONFIGS_image) ''MISS'',
                        body = BytesBody (replicate 1000 0)\<rparr>"
    and b: "BucketGet ?k \<in> set (trace (snd (handleFileStream ?rq warm_world ?k)))"
    and c: "response_status (fst (handleFileStream ?rq warm_world ?k)) = Some 200"
      "response_status (fst (handleFileStream ?rq warm_world ?k)) \<noteq> Some 206"
      "response_header (fst (handleFileStream ?rq warm_world ?k)) ''X-Cache'' \<noteq> Some ''HIT-WORKERS''"
      "response_header (fst (handleFileStream ?rq warm_world ?k)) ''Content-Range'' = None"
      "filter range_responder_call (trace (snd (handleFileStream ?rq warm_world ?k)))
       = filter range_responder_call (trace warm_world)"
    by blast+
  from tier e(1-4)
  have f: "fst (handleFileStream ?rq kv_warm_world ?k)
           = Resolved \<lparr>status = 200,
                        headers = buildResponseHeaders ''image/webp'' (Number (int (length (replicate 1000 (0::nat)))))
                                    (browserCache CACHE_CONFIGS_image) ''HIT-KV'',
                        body = BytesBody (replicate 1000 0)\<rparr>"
    and t: "trace (snd (handleFileStream ?rq kv_warm_world ?k))
            = trace kv_warm_world @ [CacheMatch (getCacheKey ?k), BucketHead ?k,
                                     KVGet (getKVKey ?k), CachePut (getCacheKey ?k)]"
    by blast+
  have a': "fst (handleFileStream ?rq warm_world ?k)
           = Resolved \<lparr>status = 200,
                        headers = buildResponseHeaders ''image/webp'' (Number 1000)
                                    ''public, max-age=31536000, immutable'' ''MISS'',
                        body = BytesBody (replicate 1000 0)\<rparr>"
    using a e(8) by simp
  have f': "fst (handleFileStream ?rq kv_warm_world ?k)
           = Resolved \<lparr>status = 200,
                        headers = buildResponseHeaders ''image/webp'' (Number 1000)
                                    ''public, max-age=31536000, immutable'' ''HIT-KV'',
                        body = BytesBody (replicate 1000 0)\<rparr>"
    using f e(8) by simp
  have t': "trace (snd (handleFileStream ?rq kv_warm_world ?k))
     = [CacheMatch ''https://cache.local/celebrity/celebrity/demo/photo.webp'',
        BucketHead ''celebrity/demo/photo.webp'',
        KVGet ''celebrity:media:celebrity/demo/photo.webp'',
        CachePut ''https://cache.local/celebrity/celebrity/demo/photo.webp'']"
    using t e(5,6,7) by simp
  have c5: "filter range_responder_call (trace (snd (handleFileStream ?rq warm_world ?k))) = []"
    using c(5) d(4) by simp
  show ?thesis
    using a' b c(1-4) c5 f' t' by blast
qed

subsection \<open>C10: a header with both groups empty\<close>

text \<open>
  C10. For the header \<^verbatim>\<open>bytes=-\<close> the pattern matches with both groups empty,
  \<open>start\<close> and \<open>end\<close> are \<^verbatim>\<open>NaN\<close>, no validation comparison holds, and the
  handler goes on to a range read of the object store with offset and length
  \<^verbatim>\<open>NaN\<close>; its answer is neither the 400 of a malformed header nor the 416 of an
  invalid range.
\<close>

theorem C10_empty_groups_reach_store:
  "match_range ''bytes=-'' = Some ([], [])
   \<and> handleRangeRequest_bounds ([], []) contentType totalSize = (NaN, NaN)
   \<and> trace (snd (handleRangeRequest request w fileKey ''bytes=-'' contentType totalSize cacheControl))
       = trace w @ [BucketGetRange fileKey NaN NaN]
   \<and> response_status (fst (handleRangeRequest request w fileKey ''bytes=-'' contentType totalSize cacheControl)) \<noteq> Some 400
   \<and> response_status (fst (handleRangeRequest request w fileKey ''bytes=-'' contentType totalSize cacheControl)) \<noteq> Some 416"
proof -
  have m: "match_range ''bytes=-'' = Some ([], [])"
    using match_range_bytes [of "[]" "[]"] by simp
  have b: "handleRangeRequest_bounds ([], []) contentType totalSize = (NaN, NaN)"
    by (simp add: handleRangeRequest_bounds_def parseInt_empty)
  show ?thesis
    using m b
    by (simp add: handleRangeRequest_def bucket_get_range_def response_status_def
        split: option.splits sum.splits r2ObjectBody.splits)
qed


end
